theory Spec2Isabelle
  imports Main
begin

section \<open>JavaScript values\<close>

text \<open>
  The handlers of the Kid Draughts API work on parsed JSON bodies and on MongoDB
  documents. Both are JavaScript values: \<open>undefined\<close> (an absent property), \<open>null\<close>,
  booleans, numbers, strings, arrays and plain objects. An object is the list of its
  own properties in insertion order.

  Numbers of the model are the integers (user ids, unix seconds, counters, timestamps in
  milliseconds) and \<open>NaN\<close>, which JSON cannot carry and only a numeric conversion
  produces. Strings are lists of 8-bit characters.
\<close>

datatype jsval =
    JUndefined
  | JNull
  | JBool bool
  | JNum int
  | JNaN
  | JStr string
  | JArr "jsval list"
  | JObj "(string \<times> jsval) list"

datatype error =
    TypeError          \<comment> \<open>raised by the language (conversion of an object, property of null)\<close>
  | StoreError jsval   \<comment> \<open>rejected store call; the argument is the error's \<open>code\<close> property\<close>

text \<open>JavaScript truthiness: the operand test of \<open>!\<close>, \<open>||\<close>, \<open>if\<close> and \<open>? :\<close>.\<close>

fun truthy :: "jsval \<Rightarrow> bool" where
  "truthy JUndefined = False"
| "truthy JNull = False"
| "truthy (JBool b) = b"
| "truthy (JNum n) = (n \<noteq> 0)"
| "truthy JNaN = False"
| "truthy (JStr s) = (s \<noteq> [])"
| "truthy (JArr xs) = True"
| "truthy (JObj kvs) = True"

text \<open>\<open>a || b\<close>\<close>

definition js_or :: "jsval \<Rightarrow> jsval \<Rightarrow> jsval" where
  "js_or a b = (if truthy a then a else b)"

text \<open>
  \<open>o.k\<close> for a value \<open>o\<close> that is neither \<open>null\<close> nor \<open>undefined\<close>: an own property of
  an object, and \<open>undefined\<close> for a missing property. None of the property names read by
  the source (\<open>display\<close>, \<open>notation\<close>, \<open>text\<close>, \<open>gameId\<close>, ...) is defined on a prototype,
  so a primitive or an array yields \<open>undefined\<close>.
\<close>

fun get :: "jsval \<Rightarrow> string \<Rightarrow> jsval" where
  "get (JObj kvs) k = (case map_of kvs k of Some v \<Rightarrow> v | None \<Rightarrow> JUndefined)"
| "get v k = JUndefined"

definition nullish :: "jsval \<Rightarrow> bool" where
  "nullish v = (v = JUndefined \<or> v = JNull)"

text \<open>\<open>o?.k\<close>: optional chaining yields \<open>undefined\<close> on \<open>null\<close> and \<open>undefined\<close>.\<close>

definition opt_get :: "jsval \<Rightarrow> string \<Rightarrow> jsval" where
  "opt_get v k = (if nullish v then JUndefined else get v k)"

subsection \<open>Conversion to string\<close>

definition digit_char :: "nat \<Rightarrow> char" where
  "digit_char n = ''0123456789'' ! n"

function string_of_nat :: "nat \<Rightarrow> string" where
  "string_of_nat n =
     (if n < 10 then [digit_char n] else string_of_nat (n div 10) @ [digit_char (n mod 10)])"
  by pat_completeness auto
termination
  by (relation "measure id") auto

definition string_of_int :: "int \<Rightarrow> string" where
  "string_of_int i = (if i < 0 then CHR ''-'' # string_of_nat (nat (- i)) else string_of_nat (nat i))"

text \<open>
  \<open>String(v)\<close>, a template literal \<open>`${v}`\<close> and \<open>"" + v\<close>. On the values of this model
  they agree. An array is the join of its elements with a comma, \<open>null\<close> and \<open>undefined\<close>
  elements giving the empty string. A plain object is \<open>[object Object]\<close> through
  \<open>Object.prototype.toString\<close>, unless it has an own property \<open>toString\<close>: a property
  that came from JSON is not callable, the inherited \<open>valueOf\<close> returns the object itself,
  and the conversion raises a TypeError.
\<close>

fun ToString :: "jsval \<Rightarrow> error + string"
  and join_elems :: "jsval list \<Rightarrow> error + string"
  and elem_string :: "jsval \<Rightarrow> error + string" where
  "ToString JUndefined = Inr ''undefined''"
| "ToString JNull = Inr ''null''"
| "ToString (JBool b) = Inr (if b then ''true'' else ''false'')"
| "ToString (JNum n) = Inr (string_of_int n)"
| "ToString JNaN = Inr ''NaN''"
| "ToString (JStr s) = Inr s"
| "ToString (JArr xs) = join_elems xs"
| "ToString (JObj kvs) =
     (if map_of kvs ''toString'' = None then Inr ''[object Object]'' else Inl TypeError)"
| "join_elems [] = Inr []"
| "join_elems [x] = elem_string x"
| "join_elems (x # y # ys) =
     (case elem_string x of
        Inl e \<Rightarrow> Inl e
      | Inr s \<Rightarrow> (case join_elems (y # ys) of
                   Inl e \<Rightarrow> Inl e
                 | Inr t \<Rightarrow> Inr (s @ '','' @ t)))"
| "elem_string JUndefined = Inr []"
| "elem_string JNull = Inr []"
| "elem_string (JBool b) = ToString (JBool b)"
| "elem_string (JNum n) = ToString (JNum n)"
| "elem_string JNaN = ToString JNaN"
| "elem_string (JStr s) = ToString (JStr s)"
| "elem_string (JArr xs) = ToString (JArr xs)"
| "elem_string (JObj kvs) = ToString (JObj kvs)"

subsection \<open>Conversion to number\<close>

definition is_ws :: "char \<Rightarrow> bool" where
  "is_ws c = (c \<in> set [CHR 0x09, CHR 0x0A, CHR 0x0B, CHR 0x0C, CHR 0x0D, CHR '' ''])"

text \<open>\<open>s.trim()\<close> on the ASCII white space.\<close>

definition trim :: "string \<Rightarrow> string" where
  "trim s = rev (dropWhile is_ws (rev (dropWhile is_ws s)))"

definition is_digit :: "char \<Rightarrow> bool" where
  "is_digit c = (c \<in> set ''0123456789'')"

definition digit_val :: "char \<Rightarrow> nat" where
  "digit_val c = of_char c - 48"

definition nat_of_digits :: "string \<Rightarrow> nat" where
  "nat_of_digits s = foldl (\<lambda>a c. 10 * a + digit_val c) 0 s"

definition digits_value :: "string \<Rightarrow> int option" where
  "digits_value s = (if s \<noteq> [] \<and> list_all is_digit s then Some (int (nat_of_digits s)) else None)"

text \<open>
  \<open>Number(s)\<close> for a string: white space is trimmed, the empty string is 0, a decimal
  integer literal with an optional sign is its value. Any other string is \<open>NaN\<close> here:
  the literals that JavaScript reads beyond these (fractions, exponents, \<open>Infinity\<close>,
  radix prefixes) denote numbers outside the integers or written in another radix, and
  are outside the model.
\<close>

definition StringToNumber :: "string \<Rightarrow> int option" where
  "StringToNumber s =
     (case trim s of
        [] \<Rightarrow> Some 0
      | c # cs \<Rightarrow>
          if c = CHR ''-'' then map_option uminus (digits_value cs)
          else if c = CHR ''+'' then digits_value cs
          else digits_value (c # cs))"

text \<open>
  \<open>Number(v)\<close>; \<open>None\<close> is \<open>NaN\<close>. An array or object is first converted to a
  primitive, which gives the same string (or TypeError) as \<open>ToString\<close>.
\<close>

fun ToNumber :: "jsval \<Rightarrow> error + int option" where
  "ToNumber JUndefined = Inr None"
| "ToNumber JNull = Inr (Some 0)"
| "ToNumber (JBool b) = Inr (Some (if b then 1 else 0))"
| "ToNumber (JNum n) = Inr (Some n)"
| "ToNumber JNaN = Inr None"
| "ToNumber (JStr s) = Inr (StringToNumber s)"
| "ToNumber v = (case ToString v of Inl e \<Rightarrow> Inl e | Inr s \<Rightarrow> Inr (StringToNumber s))"

text \<open>\<open>Number(v)\<close> as a value.\<close>

definition Number :: "jsval \<Rightarrow> error + jsval" where
  "Number v =
     (case ToNumber v of
        Inl e \<Rightarrow> Inl e
      | Inr None \<Rightarrow> Inr JNaN
      | Inr (Some n) \<Rightarrow> Inr (JNum n))"

section \<open>pdn.js: the Notation Formatter\<close>

text \<open>
  The source of \<open>pdn.js\<close> is the first part of \<open>src/unnamed/part_000\<close>; line numbers
  are those of that file.
\<close>

text \<open>
  \<^verbatim>\<open>function gameTypeForVariant(variant)\<close>: a \<open>switch\<close> with strict equality on three
  string literals and a default.
\<close>

definition gameTypeForVariant :: "jsval \<Rightarrow> string" where
  "gameTypeForVariant variant =
     (if variant = JStr ''International'' then ''20''
      else if variant = JStr ''Brazilian'' then ''26''
      else if variant = JStr ''Turkish'' then ''30''
      else ''20'')"

text \<open>The three readings that \<open>generatePDN\<close> takes of \<open>new Date()\<close>.\<close>

record utc_date =
  utcFullYear :: int
  utcMonth :: int   \<comment> \<open>\<open>getUTCMonth()\<close>, from 0\<close>
  utcDate :: int

text \<open>\<open>s.padStart(2, "0")\<close>\<close>

definition padStart2 :: "string \<Rightarrow> string" where
  "padStart2 s = replicate (2 - length s) CHR ''0'' @ s"

text \<open>Lines 13 to 16 and 21: the \<open>Date\<close> tag, \<open>`${yyyy}.${mm}.${dd}`\<close>.\<close>

definition date_tag :: "utc_date \<Rightarrow> string" where
  "date_tag d =
     (let yyyy = string_of_int (utcFullYear d);
          mm = padStart2 (string_of_int (utcMonth d + 1));
          dd = padStart2 (string_of_int (utcDate d))
      in yyyy @ ''.'' @ mm @ ''.'' @ dd)"

text \<open>
  \<open>moves.length\<close> and \<open>moves[i]\<close> for the value of \<open>game.moves || []\<close>, which is
  truthy but need not be an array.
\<close>

fun js_length :: "jsval \<Rightarrow> jsval" where
  "js_length (JArr xs) = JNum (int (length xs))"
| "js_length (JStr s) = JNum (int (length s))"
| "js_length v = get v ''length''"

fun js_index :: "jsval \<Rightarrow> nat \<Rightarrow> jsval" where
  "js_index (JArr xs) i = (if i < length xs then xs ! i else JUndefined)"
| "js_index (JStr s) i = (if i < length s then JStr [s ! i] else JUndefined)"
| "js_index v i = get v (string_of_nat i)"

text \<open>
  The number of indices \<open>i\<close> from 0 with \<open>i < moves.length\<close>: the comparison converts
  \<open>moves.length\<close> to a number and is false on \<open>NaN\<close>.
\<close>

definition loop_bound :: "jsval \<Rightarrow> error + nat" where
  "loop_bound moves =
     (case ToNumber (js_length moves) of
        Inl e \<Rightarrow> Inl e
      | Inr None \<Rightarrow> Inr 0
      | Inr (Some n) \<Rightarrow> Inr (nat n))"

text \<open>
  One pass of the loop body after the \<open>break\<close> test (lines 38 to 40): the text that the
  pair \<open>w\<close>, \<open>b\<close> adds to \<open>movetext\<close>.
\<close>

definition pair_text :: "nat \<Rightarrow> jsval \<Rightarrow> jsval \<Rightarrow> error + string" where
  "pair_text moveNo w b =
     (case ToString (get w ''notation'') of
        Inl e \<Rightarrow> Inl e
      | Inr wn \<Rightarrow>
          if truthy (opt_get b ''notation'') then
            (case ToString (get b ''notation'') of
               Inl e \<Rightarrow> Inl e
             | Inr bn \<Rightarrow> Inr (string_of_nat moveNo @ ''. '' @ wn @ '' '' @ bn @ '' ''))
          else Inr (string_of_nat moveNo @ ''. '' @ wn @ '' ''))"

text \<open>
  \<^verbatim>\<open>for (let i = 0; i < moves.length; i += 2) { ... moveNo++; }\<close> with the loop state
  \<open>i\<close>, \<open>moveNo\<close>, \<open>movetext\<close>; \<open>n\<close> is \<open>loop_bound moves\<close>.
\<close>

function pdn_loop :: "jsval \<Rightarrow> nat \<Rightarrow> nat \<Rightarrow> nat \<Rightarrow> string \<Rightarrow> error + string" where
  "pdn_loop moves n i moveNo movetext =
     (if i < n then
        (if \<not> truthy (opt_get (js_index moves i) ''notation'') then Inr movetext
         else (case pair_text moveNo (js_index moves i) (js_index moves (i + 1)) of
                 Inl e \<Rightarrow> Inl e
               | Inr t \<Rightarrow> pdn_loop moves n (i + 2) (moveNo + 1) (movetext @ t)))
      else Inr movetext)"
  by pat_completeness auto
termination
  by (relation "measure (\<lambda>(moves, n, i, moveNo, movetext). n - i)") auto

declare pdn_loop.simps [simp del]

text \<open>Lines 29 to 44: the movetext for \<open>game.moves\<close> and the \<open>Result\<close> tag.\<close>

definition movetext_of :: "jsval \<Rightarrow> jsval \<Rightarrow> error + string" where
  "movetext_of game_moves result =
     (let moves = js_or game_moves (JArr []) in
      case loop_bound moves of
        Inl e \<Rightarrow> Inl e
      | Inr n \<Rightarrow>
          (case pdn_loop moves n 0 1 [] of
             Inl e \<Rightarrow> Inl e
           | Inr movetext \<Rightarrow>
               (case ToString result of
                  Inl e \<Rightarrow> Inl e
                | Inr r \<Rightarrow> Inr (movetext @ r))))"

text \<open>\<open>Object.entries(tags).map(([k, v]) => `[${k} "${v}"]`).join("\n")\<close>\<close>

definition tag_line :: "string \<Rightarrow> string \<Rightarrow> string" where
  "tag_line k v = ''['' @ k @ '' '' @ [CHR 0x22] @ v @ [CHR 0x22] @ '']''"

fun tag_lines :: "(string \<times> jsval) list \<Rightarrow> error + string list" where
  "tag_lines [] = Inr []"
| "tag_lines ((k, v) # kvs) =
     (case ToString v of
        Inl e \<Rightarrow> Inl e
      | Inr s \<Rightarrow> (case tag_lines kvs of
                   Inl e \<Rightarrow> Inl e
                 | Inr ls \<Rightarrow> Inr (tag_line k s # ls)))"

fun join_lines :: "string list \<Rightarrow> string" where
  "join_lines [] = []"
| "join_lines [l] = l"
| "join_lines (l # m # ls) = l @ [CHR 0x0A] @ join_lines (m # ls)"

record pdn =
  tags :: "(string \<times> jsval) list"
  "text" :: string

text \<open>
  \<^verbatim>\<open>function generatePDN(game)\<close>. The first argument is the date read at line 13.
  Reading \<open>game.white\<close> raises when \<open>game\<close> is \<open>null\<close> or \<open>undefined\<close>.
\<close>

definition generatePDN :: "utc_date \<Rightarrow> jsval \<Rightarrow> error + pdn" where
  "generatePDN d game =
     (if nullish game then Inl TypeError
      else
        let tgs = [(''Event'', JStr ''Kid Draughts''),
                   (''Site'', JStr ''Roblox''),
                   (''Date'', JStr (date_tag d)),
                   (''Round'', JStr ''?''),
                   (''White'', js_or (opt_get (get game ''white'') ''display'') (JStr ''White'')),
                   (''Black'', js_or (opt_get (get game ''black'') ''display'') (JStr ''Black'')),
                   (''Result'', js_or (get game ''result'') (JStr ''*'')),
                   (''GameType'',
                      JStr (gameTypeForVariant (js_or (get game ''variant'') (JStr ''International''))))]
        in case movetext_of (get game ''moves'') (get (JObj tgs) ''Result'') of
             Inl e \<Rightarrow> Inl e
           | Inr movetext \<Rightarrow>
               (case tag_lines tgs of
                  Inl e \<Rightarrow> Inl e
                | Inr ls \<Rightarrow>
                    Inr \<lparr>tags = tgs,
                         text = trim (join_lines ls @ [CHR 0x0A, CHR 0x0A] @ movetext)\<rparr>))"

section \<open>The document store\<close>

text \<open>
  The three collections are lists of documents; a document is an object (the \<open>_id\<close>
  that MongoDB adds is left out: no handler reads it). A filter \<open>{k: v}\<close> selects the
  documents whose field \<open>k\<close> equals \<open>v\<close>, which is what MongoDB does for the strings and
  numbers that the identity keys \<open>eventId\<close>, \<open>userId\<close> and \<open>gameId\<close> are documented to
  be. Every store call takes a \<open>fault\<close>: \<open>Some e\<close> when the store rejects the call for a
  reason of its own (connection lost, server error), before anything is written.
\<close>

record store =
  Events :: "jsval list"
  Players :: "jsval list"
  Games :: "jsval list"

definition matches :: "jsval \<Rightarrow> jsval \<Rightarrow> bool" where
  "matches query doc =
     (case query of
        JObj kvs \<Rightarrow> list_all (\<lambda>(k, v). get doc k = v) kvs
      | _ \<Rightarrow> False)"

text \<open>The first document that matches, or \<open>null\<close>: \<open>coll.findOne(filter)\<close>.\<close>

definition findOne :: "jsval list \<Rightarrow> jsval \<Rightarrow> error option \<Rightarrow> error + jsval" where
  "findOne coll query fault =
     (case fault of
        Some e \<Rightarrow> Inl e
      | None \<Rightarrow> (case find (matches query) coll of None \<Rightarrow> Inr JNull | Some doc \<Rightarrow> Inr doc))"

text \<open>
  \<open>coll.insertOne(doc)\<close> on a collection with a unique index on \<open>key\<close>: a document with
  the same value of \<open>key\<close> is a duplicate-key error, code 11000.
\<close>

definition insertOne :: "string \<Rightarrow> jsval list \<Rightarrow> jsval \<Rightarrow> error option \<Rightarrow> error + jsval list" where
  "insertOne key coll doc fault =
     (case fault of
        Some e \<Rightarrow> Inl e
      | None \<Rightarrow>
          if list_ex (\<lambda>d. get d key = get doc key) coll then Inl (StoreError (JNum 11000))
          else Inr (coll @ [doc]))"

subsection \<open>Update operators\<close>

text \<open>Setting an own property: replaced in place, appended when new.\<close>

fun put :: "string \<Rightarrow> jsval \<Rightarrow> (string \<times> jsval) list \<Rightarrow> (string \<times> jsval) list" where
  "put k v [] = [(k, v)]"
| "put k v ((k', v') # kvs) = (if k' = k then (k, v) # kvs else (k', v') # put k v kvs)"

text \<open>A field name of an update operator is a dotted path: \<open>totals.games\<close>.\<close>

fun split_dots :: "string \<Rightarrow> string list" where
  "split_dots [] = [[]]"
| "split_dots (c # cs) =
     (if c = CHR ''.'' then [] # split_dots cs
      else (case split_dots cs of [] \<Rightarrow> [[c]] | p # ps \<Rightarrow> (c # p) # ps))"

text \<open>
  Applying \<open>f\<close> at a path of a document. Missing parents are created; a parent that is
  not an embedded document makes the path not viable (MongoDB's error 28).
\<close>

fun modify_path :: "string list \<Rightarrow> (jsval \<Rightarrow> error + jsval) \<Rightarrow> jsval \<Rightarrow> error + jsval" where
  "modify_path [] f v = f v"
| "modify_path (k # ks) f (JObj kvs) =
     (case modify_path ks f (get (JObj kvs) k) of
        Inl e \<Rightarrow> Inl e
      | Inr v' \<Rightarrow> Inr (JObj (put k v' kvs)))"
| "modify_path (k # ks) f JUndefined =
     (case modify_path ks f JUndefined of
        Inl e \<Rightarrow> Inl e
      | Inr v' \<Rightarrow> Inr (JObj [(k, v')]))"
| "modify_path (k # ks) f v = Inl (StoreError (JNum 28))"

text \<open>\<open>$set\<close> (and \<open>$setOnInsert\<close> on insert) stores the value.\<close>

definition set_op :: "jsval \<Rightarrow> jsval \<Rightarrow> error + jsval" where
  "set_op v old = Inr v"

text \<open>
  \<open>$inc\<close> adds to a number and creates a missing field with the amount; a field of
  another type is MongoDB's error 14.
\<close>

fun inc_op :: "jsval \<Rightarrow> jsval \<Rightarrow> error + jsval" where
  "inc_op (JNum a) JUndefined = Inr (JNum a)"
| "inc_op (JNum a) (JNum n) = Inr (JNum (n + a))"
| "inc_op a old = Inl (StoreError (JNum 14))"

fun apply_fields :: "(jsval \<Rightarrow> jsval \<Rightarrow> error + jsval) \<Rightarrow> (string \<times> jsval) list \<Rightarrow> jsval \<Rightarrow> error + jsval" where
  "apply_fields opf [] doc = Inr doc"
| "apply_fields opf ((k, v) # kvs) doc =
     (case modify_path (split_dots k) (opf v) doc of
        Inl e \<Rightarrow> Inl e
      | Inr doc' \<Rightarrow> apply_fields opf kvs doc')"

text \<open>The fields of one operator of an update document; none when the operator is absent.\<close>

definition op_fields :: "jsval \<Rightarrow> string \<Rightarrow> (string \<times> jsval) list" where
  "op_fields update name = (case get update name of JObj kvs \<Rightarrow> kvs | _ \<Rightarrow> [])"

text \<open>
  MongoDB parses an update document before it looks at any document, and rejects one in
  which two fields, of the same or of different operators, name the same path or a path
  and one of its prefixes (\<open>totals\<close> and \<open>totals.games\<close>): error 40,
  \<open>ConflictingUpdateOperators\<close>, ``Updating the path ... would create a conflict at ...''.
  \<open>$setOnInsert\<close> counts, whether or not the call inserts.
\<close>

fun is_prefix :: "string list \<Rightarrow> string list \<Rightarrow> bool" where
  "is_prefix [] q = True"
| "is_prefix (a # p) [] = False"
| "is_prefix (a # p) (b # q) = (a = b \<and> is_prefix p q)"

fun conflicting :: "string list list \<Rightarrow> bool" where
  "conflicting [] = False"
| "conflicting (p # ps) = (list_ex (\<lambda>q. is_prefix p q \<or> is_prefix q p) ps \<or> conflicting ps)"

definition update_paths :: "jsval \<Rightarrow> string list list" where
  "update_paths update =
     map (split_dots \<circ> fst)
       (op_fields update ''$set'' @ op_fields update ''$inc'' @ op_fields update ''$setOnInsert'')"

text \<open>The document after the update; \<open>inserting\<close> tells whether \<open>$setOnInsert\<close> applies.\<close>

definition apply_update :: "jsval \<Rightarrow> bool \<Rightarrow> jsval \<Rightarrow> error + jsval" where
  "apply_update update inserting doc =
     (case apply_fields set_op (op_fields update ''$set'') doc of
        Inl e \<Rightarrow> Inl e
      | Inr d1 \<Rightarrow>
          (case apply_fields inc_op (op_fields update ''$inc'') d1 of
             Inl e \<Rightarrow> Inl e
           | Inr d2 \<Rightarrow>
               if inserting then apply_fields set_op (op_fields update ''$setOnInsert'') d2
               else Inr d2))"

text \<open>Replacing the first document that matches.\<close>

fun update_first :: "(jsval \<Rightarrow> bool) \<Rightarrow> (jsval \<Rightarrow> error + jsval) \<Rightarrow> jsval list \<Rightarrow> error + jsval list" where
  "update_first P f [] = Inr []"
| "update_first P f (d # ds) =
     (if P d then (case f d of Inl e \<Rightarrow> Inl e | Inr d' \<Rightarrow> Inr (d' # ds))
      else (case update_first P f ds of Inl e \<Rightarrow> Inl e | Inr ds' \<Rightarrow> Inr (d # ds')))"

text \<open>
  \<open>coll.updateOne(filter, update, { upsert: true })\<close>: the first matching document is
  updated; when none matches, a document made of the filter's fields is updated, with
  \<open>$setOnInsert\<close>, and inserted.
\<close>

definition updateOne :: "jsval list \<Rightarrow> jsval \<Rightarrow> jsval \<Rightarrow> error option \<Rightarrow> error + jsval list" where
  "updateOne coll query update fault =
     (case fault of
        Some e \<Rightarrow> Inl e
      | None \<Rightarrow>
          if conflicting (update_paths update) then Inl (StoreError (JNum 40))
          else if list_ex (matches query) coll then
            update_first (matches query) (apply_update update False) coll
          else
            (case apply_update update True query of
               Inl e \<Rightarrow> Inl e
             | Inr doc \<Rightarrow> Inr (coll @ [doc])))"

section \<open>index.js: the request handlers\<close>

text \<open>
  The repository has two versions of \<open>index.js\<close>: the second part of
  \<open>src/unnamed/part_000\<close> (events, games, players and the export; line numbers are those
  of that file) and \<open>src/index.js\<close> (events and players only). The route
  \<open>POST /roblox/events\<close> has a handler in each; the one of \<open>src/index.js\<close> carries the
  suffix \<open>_v0\<close> here.

  A handler is an \<open>async\<close> function of the request: it either sends a reply or its
  promise is rejected with the error that escaped it (\<open>Inl\<close>), and it leaves the store in
  a new state. The handlers are modelled behind \<open>requireApiKey\<close>. The readings of
  \<open>Date.now()\<close> and the faults of the store calls are arguments, one per call site.
\<close>

datatype reply =
    Json nat jsval        \<comment> \<open>\<open>res.status(n).json(v)\<close>; \<open>res.json(v)\<close> has status 200\<close>
  | Send nat jsval        \<comment> \<open>\<open>res.status(n).send(v)\<close>\<close>
  | SendPlain nat jsval   \<comment> \<open>\<open>res.type("text/plain").send(v)\<close>\<close>

definition missing_fields :: reply where
  "missing_fields = Json 400 (JObj [(''ok'', JBool False), (''error'', JStr ''missing_fields'')])"

definition db_error :: reply where
  "db_error = Json 500 (JObj [(''ok'', JBool False), (''error'', JStr ''db_error'')])"

definition ok :: reply where
  "ok = Json 200 (JObj [(''ok'', JBool True)])"

definition ok_deduped :: reply where
  "ok_deduped = Json 200 (JObj [(''ok'', JBool True), (''deduped'', JBool True)])"

text \<open>The \<open>code\<close> property of a caught error; a TypeError has none.\<close>

fun err_code :: "error \<Rightarrow> jsval" where
  "err_code TypeError = JUndefined"
| "err_code (StoreError c) = c"

text \<open>
  \<^verbatim>\<open>function toInt(n, fallback = 0)\<close>: every number of the model is finite, \<open>NaN\<close> is not.
\<close>

definition toInt :: "jsval \<Rightarrow> jsval \<Rightarrow> error + jsval" where
  "toInt n fallback =
     (case Number n of
        Inl e \<Rightarrow> Inl e
      | Inr x \<Rightarrow> Inr (if x = JNaN then fallback else x))"

text \<open>\<open>x * 1000\<close> for a number \<open>x\<close>.\<close>

fun times1000 :: "jsval \<Rightarrow> jsval" where
  "times1000 (JNum n) = JNum (n * 1000)"
| "times1000 v = JNaN"

text \<open>A destructuring default, \<open>{ k = dflt } = body\<close>: it replaces \<open>undefined\<close> only.\<close>

definition get_default :: "jsval \<Rightarrow> string \<Rightarrow> jsval \<Rightarrow> jsval" where
  "get_default body k dflt = (if get body k = JUndefined then dflt else get body k)"

subsection \<open>POST /roblox/events\<close>

record events_env =
  insert_fault :: "error option"   \<comment> \<open>of \<open>Events.insertOne\<close>\<close>
  update_fault :: "error option"   \<comment> \<open>of \<open>Players.updateOne\<close>\<close>
  receivedAt_now :: int
  lastEventAt_now :: int
  createdAt_now :: int

text \<open>The required-field test of line 130.\<close>

definition events_missing :: "jsval \<Rightarrow> bool" where
  "events_missing body =
     (\<not> truthy (get body ''eventId'') \<or> get body ''userId'' = JUndefined
      \<or> \<not> truthy (get body ''type'') \<or> \<not> truthy (get body ''ts''))"

text \<open>The document of lines 135 to 146; \<open>toInt\<close> can raise inside the \<open>try\<close>.\<close>

definition event_document :: "events_env \<Rightarrow> jsval \<Rightarrow> error + jsval" where
  "event_document env body =
     (case toInt (get body ''userId'') (JNum 0) of
        Inl e \<Rightarrow> Inl e
      | Inr uid \<Rightarrow>
     (case toInt (get body ''ts'') (JNum 0) of
        Inl e \<Rightarrow> Inl e
      | Inr t \<Rightarrow>
     (case toInt (get_default body ''schemaVersion'' (JNum 1)) (JNum 1) of
        Inl e \<Rightarrow> Inl e
      | Inr sv \<Rightarrow>
          Inr (JObj [(''eventId'', get body ''eventId''),
                     (''userId'', uid),
                     (''type'', get body ''type''),
                     (''ts'', t),
                     (''gameId'', get_default body ''gameId'' JNull),
                     (''correlationId'', get_default body ''correlationId'' JNull),
                     (''sessionId'', get_default body ''sessionId'' JNull),
                     (''schemaVersion'', sv),
                     (''data'', js_or (get body ''data'') (JObj [])),
                     (''receivedAt'', JNum (receivedAt_now env))]))))"

text \<open>Lines 155 to 157: the object \<open>inc\<close>.\<close>

definition inc_of :: "jsval \<Rightarrow> (string \<times> jsval) list" where
  "inc_of type =
     (let inc0 = [];
          inc1 = (if type = JStr ''match_end'' then put ''totals.games'' (JNum 1) inc0 else inc0);
          inc2 = (if type = JStr ''lesson_step_completed''
                  then put ''totals.lessonSteps'' (JNum 1) inc1 else inc1)
      in inc2)"

text \<open>Lines 162 to 170: the update document of the Player aggregate.\<close>

definition player_update :: "jsval \<Rightarrow> jsval \<Rightarrow> int \<Rightarrow> int \<Rightarrow> jsval" where
  "player_update lastSeenAt type lastEventAt createdAt =
     (let inc = inc_of type in
      JObj ([(''$set'',
                JObj [(''lastSeenAt'', lastSeenAt),
                      (''lastEventType'', type),
                      (''lastEventAt'', JNum lastEventAt)])]
            @ (if length inc \<noteq> 0 then [(''$inc'', JObj inc)] else [])
            @ [(''$setOnInsert'',
                  JObj [(''createdAt'', JNum createdAt),
                        (''totals'', JObj [(''games'', JNum 0), (''lessonSteps'', JNum 0)])])]))"

text \<open>Lines 159 to 172, the body of the second \<open>try\<close>.\<close>

definition bump_player :: "events_env \<Rightarrow> jsval list \<Rightarrow> jsval \<Rightarrow> error + jsval list" where
  "bump_player env players body =
     (case toInt (get body ''userId'') (JNum 0) of
        Inl e \<Rightarrow> Inl e
      | Inr uid \<Rightarrow>
     (case toInt (get body ''ts'') (JNum 0) of
        Inl e \<Rightarrow> Inl e
      | Inr t \<Rightarrow>
          updateOne players (JObj [(''userId'', uid)])
            (player_update (times1000 t) (get body ''type'')
               (lastEventAt_now env) (createdAt_now env))
            (update_fault env)))"

text \<open>
  The handler of \<^verbatim>\<open>app.post("/roblox/events", ...)\<close>, lines 117 to 179 of
  \<open>src/unnamed/part_000\<close>. The first \<open>try\<close> covers the construction of the document and
  the insert; the second covers the update of the Player, whose failure is logged and
  dropped.
\<close>

definition roblox_events :: "events_env \<Rightarrow> store \<Rightarrow> jsval \<Rightarrow> (error + reply) \<times> store" where
  "roblox_events env s req_body =
     (let body = js_or req_body (JObj []) in
      if events_missing body then (Inr missing_fields, s)
      else
        (case (case event_document env body of
                 Inl e \<Rightarrow> Inl e
               | Inr doc \<Rightarrow> insertOne ''eventId'' (Events s) doc (insert_fault env)) of
           Inl e \<Rightarrow>
             (case ToString (err_code e) of
                Inl e' \<Rightarrow> (Inl e', s)
              | Inr c \<Rightarrow> if c = ''11000'' then (Inr ok_deduped, s) else (Inr db_error, s))
         | Inr events \<Rightarrow>
             (case bump_player env (Players s) body of
                Inl e \<Rightarrow> (Inr ok, s\<lparr>Events := events\<rparr>)
              | Inr players \<Rightarrow> (Inr ok, s\<lparr>Events := events, Players := players\<rparr>))))"

text \<open>
  The handler of the same route in \<open>src/index.js\<close> (lines 23 to 61), the file without
  the games: \<open>userId\<close> is tested for truthiness, the numbers are \<open>Number(...)\<close>, and
  \<open>Players.updateOne\<close> is awaited outside any \<open>try\<close>.
\<close>

definition events_missing_v0 :: "jsval \<Rightarrow> bool" where
  "events_missing_v0 body =
     (\<not> truthy (get body ''eventId'') \<or> \<not> truthy (get body ''userId'')
      \<or> \<not> truthy (get body ''type'') \<or> \<not> truthy (get body ''ts''))"

definition event_document_v0 :: "events_env \<Rightarrow> jsval \<Rightarrow> error + jsval" where
  "event_document_v0 env body =
     (case Number (get body ''userId'') of
        Inl e \<Rightarrow> Inl e
      | Inr uid \<Rightarrow>
     (case Number (get body ''ts'') of
        Inl e \<Rightarrow> Inl e
      | Inr t \<Rightarrow>
          Inr (JObj [(''eventId'', get body ''eventId''),
                     (''userId'', uid),
                     (''type'', get body ''type''),
                     (''ts'', t),
                     (''data'', js_or (get body ''data'') (JObj [])),
                     (''receivedAt'', JNum (receivedAt_now env))])))"

definition player_update_v0 :: "jsval \<Rightarrow> jsval \<Rightarrow> int \<Rightarrow> jsval" where
  "player_update_v0 lastSeenAt type createdAt =
     (let inc = inc_of type in
      JObj ([(''$set'', JObj [(''lastSeenAt'', lastSeenAt), (''lastEventType'', type)])]
            @ (if length inc \<noteq> 0 then [(''$inc'', JObj inc)] else [])
            @ [(''$setOnInsert'',
                  JObj [(''createdAt'', JNum createdAt),
                        (''totals'', JObj [(''games'', JNum 0), (''lessonSteps'', JNum 0)])])]))"

definition bump_player_v0 :: "events_env \<Rightarrow> jsval list \<Rightarrow> jsval \<Rightarrow> error + jsval list" where
  "bump_player_v0 env players body =
     (case Number (get body ''userId'') of
        Inl e \<Rightarrow> Inl e
      | Inr uid \<Rightarrow>
     (case Number (get body ''ts'') of
        Inl e \<Rightarrow> Inl e
      | Inr t \<Rightarrow>
          updateOne players (JObj [(''userId'', uid)])
            (player_update_v0 (times1000 t) (get body ''type'') (createdAt_now env))
            (update_fault env)))"

definition roblox_events_v0 :: "events_env \<Rightarrow> store \<Rightarrow> jsval \<Rightarrow> (error + reply) \<times> store" where
  "roblox_events_v0 env s req_body =
     (let body = js_or req_body (JObj []) in
      if events_missing_v0 body then (Inr missing_fields, s)
      else
        (case (case event_document_v0 env body of
                 Inl e \<Rightarrow> Inl e
               | Inr doc \<Rightarrow> insertOne ''eventId'' (Events s) doc (insert_fault env)) of
           Inl e \<Rightarrow>
             (case ToString (err_code e) of
                Inl e' \<Rightarrow> (Inl e', s)
              | Inr c \<Rightarrow> if c = ''11000'' then (Inr ok_deduped, s) else (Inr db_error, s))
         | Inr events \<Rightarrow>
             (case bump_player_v0 env (Players s) body of
                Inl e \<Rightarrow> (Inl e, s\<lparr>Events := events\<rparr>)
              | Inr players \<Rightarrow> (Inr ok, s\<lparr>Events := events, Players := players\<rparr>))))"

subsection \<open>POST /roblox/games/upsert\<close>

record upsert_env =
  upsert_fault :: "error option"   \<comment> \<open>of \<open>Games.updateOne\<close>\<close>
  upsert_createdAt_now :: int
  upsert_updatedAt_now :: int

definition upsert_missing :: "jsval \<Rightarrow> bool" where
  "upsert_missing g =
     (\<not> truthy (get g ''gameId'') \<or> \<not> truthy (get g ''variant'') \<or> \<not> truthy (get g ''white'')
      \<or> \<not> truthy (get g ''black'') \<or> \<not> truthy (get g ''startFen''))"

text \<open>Lines 200 to 217: the update document of the header.\<close>

definition upsert_update :: "upsert_env \<Rightarrow> jsval \<Rightarrow> jsval" where
  "upsert_update env g =
     JObj [(''$setOnInsert'',
              JObj [(''gameId'', get g ''gameId''),
                    (''createdAt'', JNum (upsert_createdAt_now env)),
                    (''status'', JStr ''running'')]),
           (''$set'',
              JObj [(''updatedAt'', JNum (upsert_updatedAt_now env)),
                    (''mode'', js_or (get g ''mode'') (JStr ''pvp'')),
                    (''variant'', get g ''variant''),
                    (''rated'', JBool (truthy (get g ''rated''))),
                    (''timeControl'', js_or (get g ''timeControl'') JNull),
                    (''white'', get g ''white''),
                    (''black'', get g ''black''),
                    (''correlationId'', js_or (get g ''correlationId'') JNull),
                    (''startFen'', get g ''startFen'')])]"

text \<open>The handler of \<^verbatim>\<open>app.post("/roblox/games/upsert", ...)\<close>, lines 192 to 222.\<close>

definition roblox_games_upsert :: "upsert_env \<Rightarrow> store \<Rightarrow> jsval \<Rightarrow> (error + reply) \<times> store" where
  "roblox_games_upsert env s req_body =
     (let g = js_or req_body (JObj []) in
      if upsert_missing g then (Inr missing_fields, s)
      else
        (case updateOne (Games s) (JObj [(''gameId'', get g ''gameId'')]) (upsert_update env g)
                (upsert_fault env) of
           Inl e \<Rightarrow> (Inl e, s)
         | Inr games \<Rightarrow> (Inr ok, s\<lparr>Games := games\<rparr>)))"

subsection \<open>POST /roblox/games/finalize\<close>

record finalize_env =
  finalize_date :: utc_date          \<comment> \<open>\<open>new Date()\<close> inside \<open>generatePDN\<close>\<close>
  finalize_fault :: "error option"   \<comment> \<open>of \<open>Games.updateOne\<close>\<close>
  finalize_createdAt_now :: int
  finalize_updatedAt_now :: int
  finalize_endAt_now :: int

text \<open>\<open>Array.isArray(v)\<close>\<close>

fun isArray :: "jsval \<Rightarrow> bool" where
  "isArray (JArr xs) = True"
| "isArray v = False"

definition finalize_missing :: "jsval \<Rightarrow> bool" where
  "finalize_missing g =
     (\<not> truthy (get g ''gameId'') \<or> \<not> truthy (get g ''result'') \<or> \<not> truthy (get g ''finalFen'')
      \<or> \<not> isArray (get g ''moves''))"

text \<open>Lines 241 to 250: the argument of \<open>generatePDN\<close>.\<close>

definition finalize_game :: "jsval \<Rightarrow> jsval" where
  "finalize_game g =
     JObj [(''gameId'', get g ''gameId''),
           (''variant'', js_or (get g ''variant'') (JStr ''International'')),
           (''white'', js_or (get g ''white'') (JObj [(''display'', JStr ''White'')])),
           (''black'', js_or (get g ''black'') (JObj [(''display'', JStr ''Black'')])),
           (''result'', get g ''result''),
           (''moves'', get g ''moves''),
           (''timeControl'', js_or (get g ''timeControl'') JNull),
           (''rated'', JBool (truthy (get g ''rated'')))]"

text \<open>Lines 254 to 277: the update document of the finished game.\<close>

definition finalize_update :: "finalize_env \<Rightarrow> jsval \<Rightarrow> pdn \<Rightarrow> jsval" where
  "finalize_update env g p =
     JObj [(''$setOnInsert'', JObj [(''createdAt'', JNum (finalize_createdAt_now env))]),
           (''$set'',
              JObj [(''updatedAt'', JNum (finalize_updatedAt_now env)),
                    (''endAt'', JNum (finalize_endAt_now env)),
                    (''status'', JStr ''finished''),
                    (''mode'', js_or (get g ''mode'') (JStr ''pvp'')),
                    (''variant'', js_or (get g ''variant'') (JStr ''International'')),
                    (''rated'', JBool (truthy (get g ''rated''))),
                    (''timeControl'', js_or (get g ''timeControl'') JNull),
                    (''white'', js_or (get g ''white'') JNull),
                    (''black'', js_or (get g ''black'') JNull),
                    (''correlationId'', js_or (get g ''correlationId'') JNull),
                    (''result'', get g ''result''),
                    (''endReason'', js_or (get g ''endReason'') JNull),
                    (''finalFen'', get g ''finalFen''),
                    (''moves'', get g ''moves''),
                    (''stats'', js_or (get g ''stats'') JNull),
                    (''ratings'', js_or (get g ''ratings'') JNull),
                    (''pdn'', JObj [(''tags'', JObj (tags p)), (''text'', JStr (text p))])])]"

text \<open>The handler of \<^verbatim>\<open>app.post("/roblox/games/finalize", ...)\<close>, lines 234 to 282.\<close>

definition roblox_games_finalize :: "finalize_env \<Rightarrow> store \<Rightarrow> jsval \<Rightarrow> (error + reply) \<times> store" where
  "roblox_games_finalize env s req_body =
     (let g = js_or req_body (JObj []) in
      if finalize_missing g then (Inr missing_fields, s)
      else
        (case generatePDN (finalize_date env) (finalize_game g) of
           Inl e \<Rightarrow> (Inl e, s)
         | Inr p \<Rightarrow>
             (case updateOne (Games s) (JObj [(''gameId'', get g ''gameId'')])
                     (finalize_update env g p) (finalize_fault env) of
                Inl e \<Rightarrow> (Inl e, s)
              | Inr games \<Rightarrow> (Inr ok, s\<lparr>Games := games\<rparr>))))"

subsection \<open>GET /games/:gameId/pdn\<close>

record export_env =
  export_fault :: "error option"   \<comment> \<open>of \<open>Games.findOne\<close>\<close>
  export_date :: utc_date          \<comment> \<open>\<open>new Date()\<close> inside \<open>generatePDN\<close>\<close>

text \<open>
  The handler of \<^verbatim>\<open>app.get("/games/:gameId/pdn", ...)\<close>, lines 288 to 296. The route
  parameter \<open>req.params.gameId\<close> is a string.
\<close>

definition games_pdn :: "export_env \<Rightarrow> store \<Rightarrow> string \<Rightarrow> (error + reply) \<times> store" where
  "games_pdn env s gameId =
     (case findOne (Games s) (JObj [(''gameId'', JStr gameId)]) (export_fault env) of
        Inl e \<Rightarrow> (Inl e, s)
      | Inr g \<Rightarrow>
          if \<not> truthy g then (Inr (Send 404 (JStr ''Not found'')), s)
          else if truthy (opt_get (get g ''pdn'') ''text'')
          then (Inr (SendPlain 200 (get (get g ''pdn'') ''text'')), s)
          else
            (case generatePDN (export_date env) g of
               Inl e \<Rightarrow> (Inl e, s)
             | Inr p \<Rightarrow> (Inr (SendPlain 200 (JStr (text p))), s)))"

section \<open>The movetext in the words of the specification\<close>

text \<open>
  The specification describes the movetext by the pairs that are emitted. A ply has a
  notation when it is there and its \<open>notation\<close> is not empty.
\<close>

definition has_notation :: "jsval \<Rightarrow> bool" where
  "has_notation ply = truthy (opt_get ply ''notation'')"

text \<open>
  Plies taken two at a time, white then black, up to the first pair whose white ply has
  no notation. A last white ply without a partner is paired with \<open>undefined\<close>.
\<close>

fun emitted_pairs :: "jsval list \<Rightarrow> (jsval \<times> jsval) list" where
  "emitted_pairs [] = []"
| "emitted_pairs [w] = (if has_notation w then [(w, JUndefined)] else [])"
| "emitted_pairs (w # b # rest) = (if has_notation w then (w, b) # emitted_pairs rest else [])"

text \<open>
  The reading ``emission stops at the first ply lacking a notation, and no later pair is
  ever emitted'': a black ply without a notation ends the emission as well, after the
  white move of its own pair.
\<close>

fun pairs_to_first_gap :: "jsval list \<Rightarrow> (jsval \<times> jsval) list" where
  "pairs_to_first_gap [] = []"
| "pairs_to_first_gap [w] = (if has_notation w then [(w, JUndefined)] else [])"
| "pairs_to_first_gap (w # b # rest) =
     (if \<not> has_notation w then []
      else if \<not> has_notation b then [(w, b)]
      else (w, b) # pairs_to_first_gap rest)"

text \<open>
  What one pair contributes: the move number, a full stop and a space, the white
  notation, then a space and the black notation only if the black ply has one, then a
  space.
\<close>

definition black_token :: "jsval \<Rightarrow> error + string" where
  "black_token b =
     (if has_notation b then
        (case ToString (get b ''notation'') of Inl e \<Rightarrow> Inl e | Inr bn \<Rightarrow> Inr ('' '' @ bn))
      else Inr [])"

definition pair_contribution :: "nat \<Rightarrow> jsval \<times> jsval \<Rightarrow> error + string" where
  "pair_contribution moveNumber p =
     (case ToString (get (fst p) ''notation'') of
        Inl e \<Rightarrow> Inl e
      | Inr wn \<Rightarrow>
          (case black_token (snd p) of
             Inl e \<Rightarrow> Inl e
           | Inr bt \<Rightarrow> Inr (string_of_nat moveNumber @ ''. '' @ wn @ bt @ '' '')))"

text \<open>The contributions of the pairs in order, numbered from \<open>moveNumber\<close>.\<close>

fun contributions :: "nat \<Rightarrow> (jsval \<times> jsval) list \<Rightarrow> error + string" where
  "contributions moveNumber [] = Inr []"
| "contributions moveNumber (p # ps) =
     (case pair_contribution moveNumber p of
        Inl e \<Rightarrow> Inl e
      | Inr t \<Rightarrow>
          (case contributions (moveNumber + 1) ps of
             Inl e \<Rightarrow> Inl e
           | Inr u \<Rightarrow> Inr (t @ u)))"

text \<open>
  The movetext: the contributions of the emitted pairs, numbered from 1, and then the
  \<open>Result\<close> tag value as the last token. The conversion of a notation or of the result
  to a string can raise.
\<close>

definition movetext_spec :: "(jsval \<times> jsval) list \<Rightarrow> jsval \<Rightarrow> error + string" where
  "movetext_spec pairs result =
     (case contributions 1 pairs of
        Inl e \<Rightarrow> Inl e
      | Inr t \<Rightarrow> (case ToString result of Inl e \<Rightarrow> Inl e | Inr r \<Rightarrow> Inr (t @ r)))"

text \<open>
  The fields of a Game record that the header upsert sets: \<open>updatedAt\<close> and the header
  fields of the request.
\<close>

definition header_fields :: "string list" where
  "header_fields =
     [''updatedAt'', ''mode'', ''variant'', ''rated'', ''timeControl'', ''white'', ''black'',
      ''correlationId'', ''startFen'']"

text \<open>The fields of a Game record that a finalize sets.\<close>

definition finalize_fields :: "string list" where
  "finalize_fields =
     [''updatedAt'', ''endAt'', ''status'', ''mode'', ''variant'', ''rated'', ''timeControl'',
      ''white'', ''black'', ''correlationId'', ''result'', ''endReason'', ''finalFen'', ''moves'',
      ''stats'', ''ratings'', ''pdn'']"

text \<open>
  The unique index on a key: no two documents of the collection agree on it. And the
  number of documents of a collection with a given value of a key.
\<close>

definition unique_index :: "string \<Rightarrow> jsval list \<Rightarrow> bool" where
  "unique_index key coll = distinct (map (\<lambda>d. get d key) coll)"

definition count_key :: "string \<Rightarrow> jsval \<Rightarrow> jsval list \<Rightarrow> nat" where
  "count_key key v coll = length (filter (\<lambda>d. get d key = v) coll)"

text \<open>A value that converts to a string without raising.\<close>

definition printable :: "jsval \<Rightarrow> bool" where
  "printable v = (case ToString v of Inl e \<Rightarrow> False | Inr s \<Rightarrow> True)"

text \<open>The plies of a \<open>moves\<close> field that is an array; none for any other value.\<close>

fun plies_of :: "jsval \<Rightarrow> jsval list" where
  "plies_of (JArr xs) = xs"
| "plies_of v = []"

section \<open>Example requests and stores\<close>

definition empty_store :: store where
  "empty_store = \<lparr>Events = [], Players = [], Games = []\<rparr>"

definition example_date :: utc_date where
  "example_date = \<lparr>utcFullYear = 2026, utcMonth = 0, utcDate = 5\<rparr>"

text \<open>A header, and two finalize requests, for the game \<open>g1\<close>.\<close>

definition example_header :: jsval where
  "example_header =
     JObj [(''gameId'', JStr ''g1''),
           (''variant'', JStr ''Brazilian''),
           (''startFen'', JStr ''W:W21-32:B1-12''),
           (''white'', JObj [(''userId'', JNum 1), (''display'', JStr ''Ann'')]),
           (''black'', JObj [(''userId'', JNum 2), (''display'', JStr ''Bo'')])]"

definition example_final :: jsval where
  "example_final =
     JObj [(''gameId'', JStr ''g1''),
           (''result'', JStr ''1-0''),
           (''finalFen'', JStr ''W:W19:B''),
           (''moves'', JArr [JObj [(''notation'', JStr ''32-28'')],
                             JObj [(''notation'', JStr ''19-23'')],
                             JObj [(''notation'', JStr ''28x19'')]])]"

definition example_final_again :: jsval where
  "example_final_again =
     JObj [(''gameId'', JStr ''g1''),
           (''result'', JStr ''0-1''),
           (''finalFen'', JStr ''B:W:B23''),
           (''moves'', JArr [JObj [(''notation'', JStr ''32-28'')],
                             JObj [(''notation'', JStr ''19-23'')]])]"

text \<open>A store that holds the game \<open>g1\<close>, finished, with a cached notation text.\<close>

definition example_finished_game :: jsval where
  "example_finished_game =
     JObj [(''gameId'', JStr ''g1''),
           (''createdAt'', JNum 10),
           (''status'', JStr ''finished''),
           (''variant'', JStr ''International''),
           (''result'', JStr ''1-0''),
           (''moves'', JArr [JObj [(''notation'', JStr ''32-28'')]]),
           (''pdn'', JObj [(''tags'', JObj []), (''text'', JStr ''1. 32-28 1-0'')])]"

definition example_finished_store :: store where
  "example_finished_store = \<lparr>Events = [], Players = [], Games = [example_finished_game]\<rparr>"

text \<open>A store that holds the game \<open>g2\<close> without a cached notation text.\<close>

definition example_uncached_game :: jsval where
  "example_uncached_game =
     JObj [(''gameId'', JStr ''g2''),
           (''result'', JStr ''1-0''),
           (''moves'', JArr [JObj [(''notation'', JStr ''32-28'')]])]"

definition example_uncached_store :: store where
  "example_uncached_store = \<lparr>Events = [], Players = [], Games = [example_uncached_game]\<rparr>"

text \<open>Environments in which every store call is answered.\<close>

definition quiet_upsert :: upsert_env where
  "quiet_upsert = \<lparr>upsert_fault = None, upsert_createdAt_now = 20, upsert_updatedAt_now = 21\<rparr>"

definition quiet_finalize :: finalize_env where
  "quiet_finalize =
     \<lparr>finalize_date = example_date, finalize_fault = None, finalize_createdAt_now = 30,
      finalize_updatedAt_now = 31, finalize_endAt_now = 32\<rparr>"

definition later_finalize :: finalize_env where
  "later_finalize =
     \<lparr>finalize_date = example_date, finalize_fault = None, finalize_createdAt_now = 50,
      finalize_updatedAt_now = 51, finalize_endAt_now = 52\<rparr>"

definition quiet_export :: export_env where
  "quiet_export = \<lparr>export_fault = None, export_date = example_date\<rparr>"

definition quiet_events :: events_env where
  "quiet_events =
     \<lparr>insert_fault = None, update_fault = None, receivedAt_now = 40, lastEventAt_now = 41,
      createdAt_now = 42\<rparr>"

text \<open>Events of the user 5, and an event whose \<open>userId\<close> and \<open>ts\<close> are 0.\<close>

definition example_match_end :: jsval where
  "example_match_end =
     JObj [(''eventId'', JStr ''e1''), (''userId'', JNum 5), (''type'', JStr ''match_end''),
           (''ts'', JNum 100)]"

definition example_login :: jsval where
  "example_login =
     JObj [(''eventId'', JStr ''e2''), (''userId'', JNum 5), (''type'', JStr ''login''),
           (''ts'', JNum 200)]"

definition example_zero_event :: jsval where
  "example_zero_event =
     JObj [(''eventId'', JStr ''e3''), (''userId'', JNum 0), (''type'', JStr ''login''),
           (''ts'', JNum 0)]"

definition example_no_user :: jsval where
  "example_no_user =
     JObj [(''eventId'', JStr ''e4''), (''type'', JStr ''login''), (''ts'', JNum 100)]"

text \<open>
  Environments in which one store call is rejected, with the code of an unreachable
  host.
\<close>

definition failing_insert :: events_env where
  "failing_insert = quiet_events\<lparr>insert_fault := Some (StoreError (JNum 6))\<rparr>"

definition failing_update :: events_env where
  "failing_update = quiet_events\<lparr>update_fault := Some (StoreError (JNum 6))\<rparr>"

section \<open>Properties of the Notation Formatter\<close>

text \<open>
  C2. For the ruleset International, white Ann, black Bo, result 1-0 and the three plies
  32-28, 19-23, 28x19, the formatter returns the tags GameType = 20, White = Ann,
  Black = Bo, and the movetext is \<open>1. 32-28 19-23 2. 28x19 1-0\<close>, on every date. The
  theorem gives the whole output.
\<close>

theorem generatePDN_round_trip:
  \<open>generatePDN d
     (JObj [(''variant'', JStr ''International''),
            (''white'', JObj [(''display'', JStr ''Ann'')]),
            (''black'', JObj [(''display'', JStr ''Bo'')]),
            (''result'', JStr ''1-0''),
            (''moves'', JArr [JObj [(''notation'', JStr ''32-28'')],
                              JObj [(''notation'', JStr ''19-23'')],
                              JObj [(''notation'', JStr ''28x19'')]])])
   = Inr \<lparr>tags = [(''Event'', JStr ''Kid Draughts''),
                   (''Site'', JStr ''Roblox''),
                   (''Date'', JStr (date_tag d)),
                   (''Round'', JStr ''?''),
                   (''White'', JStr ''Ann''),
                   (''Black'', JStr ''Bo''),
                   (''Result'', JStr ''1-0''),
                   (''GameType'', JStr ''20'')],
           text = ''[Event "Kid Draughts"]\<newline>[Site "Roblox"]\<newline>[Date "'' @ date_tag d @
                  ''"]\<newline>[Round "?"]\<newline>[White "Ann"]\<newline>[Black "Bo"]\<newline>[Result "1-0"]\<newline>[GameType "20"]\<newline>\<newline>1. 32-28 19-23 2. 28x19 1-0''\<rparr>
   \<and> movetext_of (JArr [JObj [(''notation'', JStr ''32-28'')],
                         JObj [(''notation'', JStr ''19-23'')],
                         JObj [(''notation'', JStr ''28x19'')]]) (JStr ''1-0'')
     = Inr ''1. 32-28 19-23 2. 28x19 1-0''\<close>
  by (simp add: generatePDN_def movetext_of_def loop_bound_def pdn_loop.simps pair_text_def
      digit_char_def nullish_def opt_get_def js_or_def gameTypeForVariant_def tag_line_def trim_def is_ws_def)

subsection \<open>The loop and the emitted pairs\<close>

lemma pair_text_contribution: "pair_text k w b = pair_contribution k (w, b)"
  by (simp add: pair_text_def pair_contribution_def black_token_def has_notation_def
      split: sum.splits)

lemma js_index_drop:
  "i < length xs \<Longrightarrow> drop i xs = js_index (JArr xs) i # drop (Suc i) xs"
  by (simp add: Cons_nth_drop_Suc)

text \<open>
  The loop invariant: started at index \<open>i\<close> with move number \<open>k\<close>, the loop appends the
  contributions of the pairs emitted from the plies at \<open>i\<close> and after.
\<close>

lemma pdn_loop_contributions:
  "pdn_loop (JArr xs) (length xs) i k acc =
     (case contributions k (emitted_pairs (drop i xs)) of
        Inl e \<Rightarrow> Inl e
      | Inr t \<Rightarrow> Inr (acc @ t))"
proof (induction "JArr xs" "length xs" i k acc rule: pdn_loop.induct)
  case (1 i k acc)
  show ?case
  proof (cases "i < length xs")
    case False
    then show ?thesis by (subst pdn_loop.simps) simp
  next
    case True
    note i = True
    let ?w = "js_index (JArr xs) i"
    let ?b = "js_index (JArr xs) (i + 1)"
    show ?thesis
    proof (cases "has_notation ?w")
      case False
      have "emitted_pairs (drop i xs) = []"
        using False i by (cases "drop (Suc i) xs") (simp_all add: js_index_drop)
      with False i show ?thesis
        by (subst pdn_loop.simps) (simp add: has_notation_def)
    next
      case True
      have ep: "emitted_pairs (drop i xs) = (?w, ?b) # emitted_pairs (drop (i + 2) xs)"
      proof (cases "Suc i < length xs")
        case True
        then have "drop i xs = ?w # ?b # drop (i + 2) xs"
          using i by (simp add: Cons_nth_drop_Suc)
        with \<open>has_notation ?w\<close> show ?thesis by simp
      next
        case False
        then have "drop i xs = [?w]" "?b = JUndefined" "drop (i + 2) xs = []"
          using i by (simp_all add: js_index_drop)
        with \<open>has_notation ?w\<close> show ?thesis by simp
      qed
      show ?thesis
      proof (cases "pair_text k ?w ?b")
        case (Inl e)
        with True i ep show ?thesis
          by (subst pdn_loop.simps) (simp add: has_notation_def pair_text_contribution)
      next
        case (Inr t)
        have "pdn_loop (JArr xs) (length xs) (i + 2) (k + 1) (acc @ t) =
          (case contributions (k + 1) (emitted_pairs (drop (i + 2) xs)) of
             Inl e \<Rightarrow> Inl e | Inr u \<Rightarrow> Inr ((acc @ t) @ u))"
          using "1.hyps"[OF i _ Inr] True by (simp add: has_notation_def)
        with True i ep Inr show ?thesis
          by (subst pdn_loop.simps)
             (simp add: has_notation_def pair_text_contribution split: sum.splits)
      qed
    qed
  qed
qed

lemma movetext_of_array:
  "movetext_of (JArr plies) result = movetext_spec (emitted_pairs plies) result"
  by (simp add: movetext_of_def movetext_spec_def js_or_def loop_bound_def
      pdn_loop_contributions split: sum.splits)

text \<open>
  C1, as amended. For every move list, the movetext of the formatter is the one the
  specification describes: the plies are taken two at a time from move number 1, each
  pair contributes its number, the white notation, the black notation only if the black
  ply has one, and a space; emission stops at the first pair whose \<^emph>\<open>white\<close> ply lacks a
  notation; the Result tag value is the last token. A black ply without a notation does
  not stop the emission: it only leaves its own token out.
\<close>

theorem movetext_follows_specification:
  "movetext_of (JArr plies) result = movetext_spec (emitted_pairs plies) result"
  by (rule movetext_of_array)

text \<open>
  C1, as stated, fails: in the list 32-28, \<open>null\<close>, 28x19 the first ply lacking a
  notation is the second one, and the formatter still emits the pair after it.
\<close>

theorem movetext_first_gap_counterexample:
  "movetext_of (JArr [JObj [(''notation'', JStr ''32-28'')], JNull,
                      JObj [(''notation'', JStr ''28x19'')]]) (JStr ''*'')
     = Inr ''1. 32-28 2. 28x19 *''
   \<and> movetext_spec (pairs_to_first_gap [JObj [(''notation'', JStr ''32-28'')], JNull,
                                        JObj [(''notation'', JStr ''28x19'')]]) (JStr ''*'')
     = Inr ''1. 32-28 *''"
  by (simp add: movetext_of_def movetext_spec_def js_or_def loop_bound_def pdn_loop.simps
      pair_text_def has_notation_def opt_get_def nullish_def pair_contribution_def
      black_token_def digit_char_def)

subsection \<open>Totality of the formatter\<close>

lemma printable_ToString: "printable v \<Longrightarrow> \<exists>s. ToString v = Inr s"
  by (auto simp: printable_def split: sum.splits)

lemma emitted_pairs_members:
  "(w, b) \<in> set (emitted_pairs xs) \<Longrightarrow> w \<in> set xs \<and> (b \<in> set xs \<or> b = JUndefined)"
  by (induction xs rule: emitted_pairs.induct) (auto split: if_splits)

lemma pair_contribution_printable:
  "printable (opt_get w ''notation'') \<Longrightarrow> printable (opt_get b ''notation'') \<Longrightarrow> has_notation w
   \<Longrightarrow> \<exists>t. pair_contribution k (w, b) = Inr t"
  by (auto simp: pair_contribution_def black_token_def printable_def has_notation_def opt_get_def
      split: sum.splits if_splits)

lemma emitted_pairs_has_notation:
  "(w, b) \<in> set (emitted_pairs xs) \<Longrightarrow> has_notation w"
  by (induction xs rule: emitted_pairs.induct) (auto split: if_splits)

lemma contributions_printable:
  "\<forall>(w, b) \<in> set ps. has_notation w \<and> printable (opt_get w ''notation'') \<and> printable (opt_get b ''notation'')
   \<Longrightarrow> \<exists>t. contributions k ps = Inr t"
proof (induction ps arbitrary: k)
  case Nil
  then show ?case by simp
next
  case (Cons p ps)
  obtain w b where p: "p = (w, b)" by (cases p)
  from Cons.prems p obtain t where "pair_contribution k p = Inr t"
    using pair_contribution_printable by fastforce
  moreover from Cons obtain u where "contributions (k + 1) ps = Inr u" by fastforce
  ultimately show ?case by simp
qed

lemma movetext_of_printable:
  assumes "list_all (\<lambda>ply. printable (opt_get ply ''notation'')) plies" and "printable result"
  shows "\<exists>t. movetext_of (JArr plies) result = Inr t"
proof -
  have "\<forall>(w, b) \<in> set (emitted_pairs plies).
          has_notation w \<and> printable (opt_get w ''notation'') \<and> printable (opt_get b ''notation'')"
    using assms(1) emitted_pairs_members emitted_pairs_has_notation
    by (fastforce simp: list_all_iff printable_def opt_get_def nullish_def)
  then obtain t where "contributions 1 (emitted_pairs plies) = Inr t"
    using contributions_printable by blast
  moreover obtain r where "ToString result = Inr r"
    using assms(2) printable_ToString by blast
  ultimately show ?thesis
    by (simp add: movetext_of_array movetext_spec_def)
qed

lemma printable_js_or: "printable a \<Longrightarrow> printable b \<Longrightarrow> printable (js_or a b)"
  by (simp add: js_or_def)

lemma tag_lines_printable:
  "list_all (\<lambda>(k, v). printable v) kvs \<Longrightarrow> \<exists>ls. tag_lines kvs = Inr ls"
  by (induction kvs) (auto simp: printable_def split: sum.splits)

text \<open>
  C10, as amended. The formatter returns a tags/text pair, without raising, for every
  game object whose \<open>moves\<close> field is an array or absent (or any other falsy value) and
  in which the values it prints (the display names, the result, the notations of the
  plies) convert to strings: every string, number, boolean and \<open>null\<close> does, and the
  entries of \<open>moves\<close> may be \<open>null\<close> or lack a notation. An absent (or falsy) display
  name, result or variant is replaced by White, Black, \<open>*\<close> and International, whose
  game type is 20.
\<close>

theorem generatePDN_total:
  assumes moves: "isArray (get (JObj kvs) ''moves'') \<or> \<not> truthy (get (JObj kvs) ''moves'')"
    and plies: "list_all (\<lambda>ply. printable (opt_get ply ''notation'')) (plies_of (get (JObj kvs) ''moves''))"
    and white: "printable (opt_get (get (JObj kvs) ''white'') ''display'')"
    and black: "printable (opt_get (get (JObj kvs) ''black'') ''display'')"
    and result: "printable (get (JObj kvs) ''result'')"
  shows "\<exists>p. generatePDN d (JObj kvs) = Inr p
    \<and> (\<not> truthy (opt_get (get (JObj kvs) ''white'') ''display'') \<longrightarrow> get (JObj (tags p)) ''White'' = JStr ''White'')
    \<and> (\<not> truthy (opt_get (get (JObj kvs) ''black'') ''display'') \<longrightarrow> get (JObj (tags p)) ''Black'' = JStr ''Black'')
    \<and> (\<not> truthy (get (JObj kvs) ''result'') \<longrightarrow> get (JObj (tags p)) ''Result'' = JStr ''*'')
    \<and> (\<not> truthy (get (JObj kvs) ''variant'') \<longrightarrow>
          get (JObj (tags p)) ''GameType'' = JStr (gameTypeForVariant (JStr ''International'')))"
proof -
  let ?game = "JObj kvs"
  let ?res = "js_or (get ?game ''result'') (JStr ''*'')"
  have pres: "printable ?res"
    using result by (simp add: js_or_def printable_def)
  have "\<exists>t. movetext_of (get ?game ''moves'') ?res = Inr t"
  proof (cases "isArray (get ?game ''moves'')")
    case True
    then obtain xs where "get ?game ''moves'' = JArr xs"
      by (cases "get ?game ''moves''") simp_all
    with plies pres show ?thesis by (simp add: movetext_of_printable del: get.simps)
  next
    case False
    with moves have falsy: "\<not> truthy (get ?game ''moves'')" by blast
    then have "movetext_of (get ?game ''moves'') ?res = movetext_of (JArr []) ?res"
      by (simp add: movetext_of_def js_or_def del: get.simps)
    with pres show ?thesis
      using movetext_of_printable[of "[]" ?res] by (simp del: get.simps)
  qed
  then obtain t where t: "movetext_of (get ?game ''moves'') ?res = Inr t" ..
  let ?tgs = "[(''Event'', JStr ''Kid Draughts''),
                   (''Site'', JStr ''Roblox''),
                   (''Date'', JStr (date_tag d)),
                   (''Round'', JStr ''?''),
                   (''White'', js_or (opt_get (get ?game ''white'') ''display'') (JStr ''White'')),
                   (''Black'', js_or (opt_get (get ?game ''black'') ''display'') (JStr ''Black'')),
                   (''Result'', ?res),
                   (''GameType'',
                      JStr (gameTypeForVariant (js_or (get ?game ''variant'') (JStr ''International''))))]"
  have "list_all (\<lambda>(k, v). printable v) ?tgs"
    using white black pres by (simp add: js_or_def printable_def del: get.simps)
  then obtain ls where ls: "tag_lines ?tgs = Inr ls"
    using tag_lines_printable by blast
  have "generatePDN d ?game = Inr \<lparr>tags = ?tgs, text = trim (join_lines ls @ [CHR 0x0A, CHR 0x0A] @ t)\<rparr>"
    using t ls unfolding generatePDN_def Let_def by (simp add: nullish_def del: tag_lines.simps)
  then show ?thesis
    by (simp add: js_or_def)
qed

theorem generatePDN_total_witness:
  "\<exists>p. generatePDN \<lparr>utcFullYear = 2026, utcMonth = 0, utcDate = 1\<rparr>
          (JObj [(''moves'', JArr [JObj [(''notation'', JStr ''32-28'')], JNull, JObj []])]) = Inr p
    \<and> get (JObj (tags p)) ''White'' = JStr ''White''
    \<and> get (JObj (tags p)) ''Black'' = JStr ''Black''
    \<and> get (JObj (tags p)) ''Result'' = JStr ''*''
    \<and> get (JObj (tags p)) ''GameType'' = JStr ''20''"
  using generatePDN_total[of "[(''moves'', JArr [JObj [(''notation'', JStr ''32-28'')], JNull, JObj []])]"
      "\<lparr>utcFullYear = 2026, utcMonth = 0, utcDate = 1\<rparr>"]
  by (simp add: printable_def opt_get_def nullish_def gameTypeForVariant_def)

text \<open>
  C10, as stated, fails: a game object whose result is an object with an own property
  \<open>toString\<close> (as JSON can carry it) makes \<open>movetext += tags.Result\<close> raise a TypeError.
\<close>

theorem generatePDN_raises_counterexample:
  "generatePDN \<lparr>utcFullYear = 2026, utcMonth = 0, utcDate = 1\<rparr>
     (JObj [(''result'', JObj [(''toString'', JNum 1)]), (''moves'', JArr [])]) = Inl TypeError"
  by (simp add: generatePDN_def nullish_def movetext_of_def js_or_def loop_bound_def pdn_loop.simps opt_get_def)

section \<open>Properties of the store operations\<close>

lemma get_put: "get (JObj (put k v kvs)) k' = (if k' = k then v else get (JObj kvs) k')"
  by (induction kvs) auto

lemma split_dots_simple: "CHR ''.'' \<notin> set k \<Longrightarrow> split_dots k = [k]"
  by (induction k) auto

lemma apply_fields_set:
  "list_all (\<lambda>(k, v). CHR ''.'' \<notin> set k) fs \<Longrightarrow>
   \<exists>kvs'. apply_fields set_op fs (JObj kvs) = Inr (JObj kvs')
     \<and> (\<forall>k. get (JObj kvs') k = (case map_of (rev fs) k of Some x \<Rightarrow> x | None \<Rightarrow> get (JObj kvs) k))"
proof (induction fs arbitrary: kvs)
  case Nil
  then show ?case by simp
next
  case (Cons f fs)
  obtain k v where f: "f = (k, v)" by (cases f)
  from Cons.prems f have k: "CHR ''.'' \<notin> set k" and rest: "list_all (\<lambda>(k, v). CHR ''.'' \<notin> set k) fs"
    by simp_all
  from Cons.IH[OF rest, of "put k v kvs"] obtain kvs' where
    1: "apply_fields set_op fs (JObj (put k v kvs)) = Inr (JObj kvs')" and
    2: "\<forall>k'. get (JObj kvs') k' = (case map_of (rev fs) k' of Some x \<Rightarrow> x | None \<Rightarrow> get (JObj (put k v kvs)) k')"
    by blast
  have "apply_fields set_op (f # fs) (JObj kvs) = Inr (JObj kvs')"
    using 1 k f by (simp add: split_dots_simple set_op_def)
  moreover have "\<forall>k'. get (JObj kvs') k' = (case map_of (rev (f # fs)) k' of Some x \<Rightarrow> x | None \<Rightarrow> get (JObj kvs) k')"
    using 2 f by (auto simp: get_put map_add_def simp del: get.simps split: option.splits)
  ultimately show ?case by blast
qed

lemma update_first_find:
  "find P coll = Some d \<Longrightarrow> f d = Inr d' \<Longrightarrow>
   \<exists>pre post. coll = pre @ d # post \<and> (\<forall>x \<in> set pre. \<not> P x) \<and> update_first P f coll = Inr (pre @ d' # post)"
proof (induction coll)
  case Nil
  then show ?case by simp
next
  case (Cons x coll)
  show ?case
  proof (cases "P x")
    case True
    with Cons.prems have "x = d" by simp
    with True Cons.prems show ?thesis by (intro exI[of _ "[]"] exI[of _ coll]) simp
  next
    case False
    with Cons obtain pre post where "coll = pre @ d # post" "\<forall>x \<in> set pre. \<not> P x" "update_first P f coll = Inr (pre @ d' # post)"
      by auto
    with False show ?thesis by (intro exI[of _ "x # pre"] exI[of _ post]) simp
  qed
qed

lemma find_middle: "\<forall>x \<in> set pre. \<not> P x \<Longrightarrow> P d \<Longrightarrow> find P (pre @ d # post) = Some d"
  by (induction pre) auto

lemma find_append_new: "find P coll = None \<Longrightarrow> P d \<Longrightarrow> find P (coll @ [d]) = Some d"
  by (induction coll) (auto split: if_splits)

lemma list_ex_find: "list_ex P xs \<longleftrightarrow> find P xs \<noteq> None"
  by (induction xs) auto

lemma finalize_update_paths: "\<not> conflicting (update_paths (finalize_update env g p))"
  by (simp add: finalize_update_def update_paths_def op_fields_def)

lemma upsert_update_paths: "\<not> conflicting (update_paths (upsert_update env g))"
  by (simp add: upsert_update_def update_paths_def op_fields_def)

lemma get_fields_rev:
  assumes "distinct (map fst fs)"
  shows "(case map_of (rev fs) k of Some x \<Rightarrow> x | None \<Rightarrow> y) = (if k \<in> fst ` set fs then get (JObj fs) k else y)"
proof -
  have "map_of (rev fs) = map_of fs"
    by (rule map_of_inject_set[THEN iffD2]) (use assms in \<open>simp_all add: rev_map[symmetric]\<close>)
  moreover have "k \<notin> fst ` set fs \<longleftrightarrow> map_of fs k = None"
    by (simp add: map_of_eq_None_iff)
  ultimately show ?thesis by (cases "map_of fs k") auto
qed

lemma apply_fields_set_distinct:
  assumes "list_all (\<lambda>(k, v). CHR ''.'' \<notin> set k) fs" and "distinct (map fst fs)"
  shows "\<exists>kvs'. apply_fields set_op fs (JObj kvs) = Inr (JObj kvs')
     \<and> (\<forall>k. get (JObj kvs') k = (if k \<in> fst ` set fs then get (JObj fs) k else get (JObj kvs) k))"
  using apply_fields_set[OF assms(1), of kvs] get_fields_rev[OF assms(2)] by (auto simp del: get.simps)

lemma matches_single: "matches (JObj [(key, v)]) d \<longleftrightarrow> get d key = v"
  by (simp add: matches_def)

lemma get_defined_obj: "get d k \<noteq> JUndefined \<Longrightarrow> \<exists>kvs. d = JObj kvs"
  by (cases d) simp_all

lemma find_Some_P: "find P xs = Some d \<Longrightarrow> P d"
  by (induction xs) (auto split: if_splits)

text \<open>An update with top-level \<open>$set\<close> fields only, of a document that exists.\<close>

lemma updateOne_existing:
  assumes found: "find (matches (JObj [(key, v)])) coll = Some d"
    and v: "v \<noteq> JUndefined"
    and inc: "op_fields u ''$inc'' = []"
    and simple: "list_all (\<lambda>(k, v). CHR ''.'' \<notin> set k) (op_fields u ''$set'')"
    and dist: "distinct (map fst (op_fields u ''$set''))"
    and key: "key \<notin> fst ` set (op_fields u ''$set'')"
    and conf: "\<not> conflicting (update_paths u)"
  shows "\<exists>pre post d'. coll = pre @ d # post \<and> (\<forall>x \<in> set pre. \<not> matches (JObj [(key, v)]) x)
      \<and> updateOne coll (JObj [(key, v)]) u None = Inr (pre @ d' # post)
      \<and> find (matches (JObj [(key, v)])) (pre @ d' # post) = Some d'
      \<and> (\<forall>k. get d' k = (if k \<in> fst ` set (op_fields u ''$set'') then get (JObj (op_fields u ''$set'')) k else get d k))"
proof -
  let ?q = "JObj [(key, v)]"
  let ?st = "op_fields u ''$set''"
  from found have md: "matches ?q d" by (rule find_Some_P)
  then have "get d key = v" by (simp add: matches_single)
  with v obtain kvs where d: "d = JObj kvs" using get_defined_obj[of d key] by auto
  from apply_fields_set_distinct[OF simple dist, of kvs] obtain kvs' where
    a: "apply_fields set_op ?st (JObj kvs) = Inr (JObj kvs')" and
    g: "\<forall>k. get (JObj kvs') k = (if k \<in> fst ` set ?st then get (JObj ?st) k else get (JObj kvs) k)"
    by blast
  have au: "apply_update u False d = Inr (JObj kvs')"
    using a inc d by (simp add: apply_update_def)
  from update_first_find[of "matches ?q" coll d "apply_update u False" "JObj kvs'", OF found au] obtain pre post where
    c: "coll = pre @ d # post" and n: "\<forall>x \<in> set pre. \<not> matches ?q x" and
    uf: "update_first (matches ?q) (apply_update u False) coll = Inr (pre @ JObj kvs' # post)"
    by blast
  have ex: "list_ex (matches ?q) coll"
    using found by (simp add: list_ex_find)
  have uo: "updateOne coll ?q u None = Inr (pre @ JObj kvs' # post)"
    using conf ex uf by (simp add: updateOne_def)
  have "get (JObj kvs') key = v"
    using g key \<open>get d key = v\<close> d by (simp del: get.simps)
  then have "matches ?q (JObj kvs')" by (simp add: matches_single del: get.simps)
  with n have "find (matches ?q) (pre @ JObj kvs' # post) = Some (JObj kvs')"
    by (rule find_middle)
  with c n uo g d show ?thesis by blast
qed

text \<open>The same update when no document matches: the upsert inserts.\<close>

lemma updateOne_insert:
  assumes none: "find (matches (JObj [(key, v)])) coll = None"
    and inc: "op_fields u ''$inc'' = []"
    and simple: "list_all (\<lambda>(k, v). CHR ''.'' \<notin> set k) (op_fields u ''$set'')"
    and dist: "distinct (map fst (op_fields u ''$set''))"
    and simple': "list_all (\<lambda>(k, v). CHR ''.'' \<notin> set k) (op_fields u ''$setOnInsert'')"
    and dist': "distinct (map fst (op_fields u ''$setOnInsert''))"
    and conf: "\<not> conflicting (update_paths u)"
  shows "\<exists>d'. updateOne coll (JObj [(key, v)]) u None = Inr (coll @ [d'])
      \<and> (\<forall>k. get d' k =
            (if k \<in> fst ` set (op_fields u ''$setOnInsert'') then get (JObj (op_fields u ''$setOnInsert'')) k
             else if k \<in> fst ` set (op_fields u ''$set'') then get (JObj (op_fields u ''$set'')) k
             else get (JObj [(key, v)]) k))"
proof -
  let ?q = "JObj [(key, v)]"
  let ?st = "op_fields u ''$set''"
  let ?so = "op_fields u ''$setOnInsert''"
  from apply_fields_set_distinct[OF simple dist, of "[(key, v)]"] obtain kvs1 where
    a1: "apply_fields set_op ?st ?q = Inr (JObj kvs1)" and
    g1: "\<forall>k. get (JObj kvs1) k = (if k \<in> fst ` set ?st then get (JObj ?st) k else get ?q k)"
    by blast
  from apply_fields_set_distinct[OF simple' dist', of kvs1] obtain kvs2 where
    a2: "apply_fields set_op ?so (JObj kvs1) = Inr (JObj kvs2)" and
    g2: "\<forall>k. get (JObj kvs2) k = (if k \<in> fst ` set ?so then get (JObj ?so) k else get (JObj kvs1) k)"
    by blast
  have au: "apply_update u True ?q = Inr (JObj kvs2)"
    using a1 a2 inc by (simp add: apply_update_def)
  have "\<not> list_ex (matches ?q) coll"
    using none by (simp add: list_ex_find)
  then have "updateOne coll ?q u None = Inr (coll @ [JObj kvs2])"
    using conf au by (simp add: updateOne_def)
  moreover have "\<forall>k. get (JObj kvs2) k =
            (if k \<in> fst ` set ?so then get (JObj ?so) k
             else if k \<in> fst ` set ?st then get (JObj ?st) k
             else get ?q k)"
    using g1 g2 by (simp del: get.simps)
  ultimately show ?thesis by blast
qed

section \<open>Properties of the game handlers\<close>

subsection \<open>The header upsert\<close>

lemma upsert_ops:
  "op_fields (upsert_update env g) ''$inc'' = []"
  "op_fields (upsert_update env g) ''$set'' =
      [(''updatedAt'', JNum (upsert_updatedAt_now env)),
       (''mode'', js_or (get g ''mode'') (JStr ''pvp'')),
       (''variant'', get g ''variant''),
       (''rated'', JBool (truthy (get g ''rated''))),
       (''timeControl'', js_or (get g ''timeControl'') JNull),
       (''white'', get g ''white''),
       (''black'', get g ''black''),
       (''correlationId'', js_or (get g ''correlationId'') JNull),
       (''startFen'', get g ''startFen'')]"
  "op_fields (upsert_update env g) ''$setOnInsert'' =
      [(''gameId'', get g ''gameId''),
       (''createdAt'', JNum (upsert_createdAt_now env)),
       (''status'', JStr ''running'')]"
  by (simp_all add: upsert_update_def op_fields_def)

text \<open>
  C8. A valid header upsert, when the store answers: if a Game record with the
  \<open>gameId\<close> exists, only that record changes, and in it only \<open>updatedAt\<close> and the header
  fields, which take the values of the request; every other field (\<open>status\<close>,
  \<open>createdAt\<close>, \<open>result\<close>, \<open>endReason\<close>, \<open>finalFen\<close>, \<open>moves\<close>, \<open>stats\<close>, \<open>ratings\<close>,
  \<open>endAt\<close>, \<open>pdn\<close>) keeps its value. If no record exists, one is added with \<open>status\<close>
  running, the \<open>createdAt\<close> of now and the header fields of the request.
\<close>

theorem upsert_header_frame:
  fixes body :: jsval
  defines "g \<equiv> js_or body (JObj [])"
  assumes valid: "\<not> upsert_missing g"
    and nofault: "upsert_fault env = None"
  shows "(\<forall>d. find (matches (JObj [(''gameId'', get g ''gameId'')])) (Games s) = Some d \<longrightarrow>
            (\<exists>pre post d'. Games s = pre @ d # post
               \<and> roblox_games_upsert env s body = (Inr ok, s\<lparr>Games := pre @ d' # post\<rparr>)
               \<and> find (matches (JObj [(''gameId'', get g ''gameId'')])) (pre @ d' # post) = Some d'
               \<and> (\<forall>k. get d' k =
                     (if k \<in> set header_fields then get (get (upsert_update env g) ''$set'') k
                      else get d k))))
       \<and> (find (matches (JObj [(''gameId'', get g ''gameId'')])) (Games s) = None \<longrightarrow>
            (\<exists>d'. roblox_games_upsert env s body = (Inr ok, s\<lparr>Games := Games s @ [d']\<rparr>)
               \<and> get d' ''gameId'' = get g ''gameId''
               \<and> get d' ''status'' = JStr ''running''
               \<and> get d' ''createdAt'' = JNum (upsert_createdAt_now env)
               \<and> (\<forall>k \<in> set header_fields. get d' k = get (get (upsert_update env g) ''$set'') k)))"
unfolding g_def
proof (intro conjI allI impI)
  let ?g = "js_or body (JObj [])"
  note valid = valid[unfolded g_def]
  let ?q = "JObj [(''gameId'', get ?g ''gameId'')]"
  let ?u = "upsert_update env ?g"
  have gid: "get ?g ''gameId'' \<noteq> JUndefined"
    using valid by (auto simp: upsert_missing_def)
  have setdoc: "get ?u ''$set'' = JObj (op_fields ?u ''$set'')"
    by (simp add: upsert_update_def op_fields_def)
  have hf: "fst ` set (op_fields ?u ''$set'') = set header_fields"
    by (simp add: upsert_ops header_fields_def)
  {
    fix d assume found: "find (matches ?q) (Games s) = Some d"
    from updateOne_existing[OF found gid, of ?u] obtain pre post d' where
      "Games s = pre @ d # post"
      "updateOne (Games s) ?q ?u None = Inr (pre @ d' # post)"
      "find (matches ?q) (pre @ d' # post) = Some d'"
      "\<forall>k. get d' k = (if k \<in> fst ` set (op_fields ?u ''$set'')
                         then get (JObj (op_fields ?u ''$set'')) k else get d k)"
      using upsert_update_paths by (auto simp: upsert_ops)
    then show "\<exists>pre post d'. Games s = pre @ d # post
               \<and> roblox_games_upsert env s body = (Inr ok, s\<lparr>Games := pre @ d' # post\<rparr>)
               \<and> find (matches ?q) (pre @ d' # post) = Some d'
               \<and> (\<forall>k. get d' k = (if k \<in> set header_fields then get (get ?u ''$set'') k else get d k))"
      using valid nofault unfolding setdoc hf
      by (intro exI[of _ pre] exI[of _ post] exI[of _ d'])
         (simp add: roblox_games_upsert_def Let_def del: get.simps)
  }
  {
    assume none: "find (matches ?q) (Games s) = None"
    from updateOne_insert[OF none, of ?u] obtain d' where
      "updateOne (Games s) ?q ?u None = Inr (Games s @ [d'])"
      "\<forall>k. get d' k =
            (if k \<in> fst ` set (op_fields ?u ''$setOnInsert'')
             then get (JObj (op_fields ?u ''$setOnInsert'')) k
             else if k \<in> fst ` set (op_fields ?u ''$set'')
             then get (JObj (op_fields ?u ''$set'')) k
             else get ?q k)"
      using upsert_update_paths by (auto simp: upsert_ops)
    then show "\<exists>d'. roblox_games_upsert env s body = (Inr ok, s\<lparr>Games := Games s @ [d']\<rparr>)
               \<and> get d' ''gameId'' = get ?g ''gameId''
               \<and> get d' ''status'' = JStr ''running''
               \<and> get d' ''createdAt'' = JNum (upsert_createdAt_now env)
               \<and> (\<forall>k \<in> set header_fields. get d' k = get (get ?u ''$set'') k)"
      using valid nofault unfolding setdoc
      by (intro exI[of _ d'])
         (simp add: roblox_games_upsert_def Let_def upsert_ops header_fields_def del: get.simps,
          simp)
  }
qed

theorem upsert_header_frame_witness:
  "\<not> upsert_missing (js_or example_header (JObj [])) \<and> upsert_fault quiet_upsert = None
   \<and> find (matches (JObj [(''gameId'', JStr ''g1'')])) (Games example_finished_store) = Some example_finished_game
   \<and> (\<exists>d'. roblox_games_upsert quiet_upsert example_finished_store example_header
               = (Inr ok, example_finished_store\<lparr>Games := [d']\<rparr>)
          \<and> get d' ''status'' = JStr ''finished''
          \<and> get d' ''createdAt'' = JNum 10
          \<and> get d' ''result'' = JStr ''1-0''
          \<and> get d' ''pdn'' = get example_finished_game ''pdn''
          \<and> get d' ''variant'' = JStr ''Brazilian''
          \<and> get d' ''updatedAt'' = JNum 21)
   \<and> find (matches (JObj [(''gameId'', JStr ''g1'')])) (Games empty_store) = None
   \<and> (\<exists>d'. roblox_games_upsert quiet_upsert empty_store example_header
               = (Inr ok, empty_store\<lparr>Games := [d']\<rparr>)
          \<and> get d' ''status'' = JStr ''running''
          \<and> get d' ''createdAt'' = JNum 20
          \<and> get d' ''variant'' = JStr ''Brazilian'')"
proof -
  have valid: "\<not> upsert_missing (js_or example_header (JObj []))"
    by (simp add: upsert_missing_def example_header_def js_or_def)
  have quiet: "upsert_fault quiet_upsert = None"
    by (simp add: quiet_upsert_def)
  have gid: "get (js_or example_header (JObj [])) ''gameId'' = JStr ''g1''"
    by (simp add: example_header_def js_or_def)
  have found: "find (matches (JObj [(''gameId'', JStr ''g1'')])) (Games example_finished_store) = Some example_finished_game"
    by (simp add: example_finished_store_def example_finished_game_def matches_def)
  have none: "find (matches (JObj [(''gameId'', JStr ''g1'')])) (Games empty_store) = None"
    by (simp add: empty_store_def)
  from upsert_header_frame[OF valid quiet, of example_finished_store] found gid
  obtain pre post d' where
    1: "Games example_finished_store = pre @ example_finished_game # post"
    and 2: "roblox_games_upsert quiet_upsert example_finished_store example_header
         = (Inr ok, example_finished_store\<lparr>Games := pre @ d' # post\<rparr>)"
    and 3: "\<forall>k. get d' k = (if k \<in> set header_fields
          then get (get (upsert_update quiet_upsert (js_or example_header (JObj []))) ''$set'') k
          else get example_finished_game k)"
    by auto
  from 1 have "pre = []" "post = []"
    by (simp_all add: example_finished_store_def Cons_eq_append_conv)
  with 2 have a: "roblox_games_upsert quiet_upsert example_finished_store example_header
         = (Inr ok, example_finished_store\<lparr>Games := [d']\<rparr>)" by simp
  have b: "get d' ''status'' = JStr ''finished''" "get d' ''createdAt'' = JNum 10"
    "get d' ''result'' = JStr ''1-0''" "get d' ''pdn'' = get example_finished_game ''pdn''"
    "get d' ''variant'' = JStr ''Brazilian''" "get d' ''updatedAt'' = JNum 21"
    using 3 by (simp_all add: header_fields_def example_finished_game_def upsert_update_def
        example_header_def js_or_def quiet_upsert_def)
  from upsert_header_frame[OF valid quiet, of empty_store] none gid
  obtain e' where
    4: "roblox_games_upsert quiet_upsert empty_store example_header
         = (Inr ok, empty_store\<lparr>Games := Games empty_store @ [e']\<rparr>)"
    and 5: "get e' ''status'' = JStr ''running''" "get e' ''createdAt'' = JNum (upsert_createdAt_now quiet_upsert)"
    and 6: "\<forall>k \<in> set header_fields. get e' k = get (get (upsert_update quiet_upsert (js_or example_header (JObj []))) ''$set'') k"
    by auto
  from 4 have c: "roblox_games_upsert quiet_upsert empty_store example_header
         = (Inr ok, empty_store\<lparr>Games := [e']\<rparr>)"
    by (simp add: empty_store_def)
  have d: "get e' ''createdAt'' = JNum 20" "get e' ''variant'' = JStr ''Brazilian''"
    using 5 6 by (simp_all add: quiet_upsert_def header_fields_def upsert_update_def example_header_def js_or_def)
  from valid quiet found none a b c d 5(1) show ?thesis by blast
qed

subsection \<open>Finalizing a game\<close>

lemma finalize_ops:
  "op_fields (finalize_update env g p) ''$inc'' = []"
  "op_fields (finalize_update env g p) ''$setOnInsert'' = [(''createdAt'', JNum (finalize_createdAt_now env))]"
  "fst ` set (op_fields (finalize_update env g p) ''$set'') = set finalize_fields"
  "distinct (map fst (op_fields (finalize_update env g p) ''$set''))"
  "list_all (\<lambda>(k, v). CHR ''.'' \<notin> set k) (op_fields (finalize_update env g p) ''$set'')"
  "get (finalize_update env g p) ''$set'' = JObj (op_fields (finalize_update env g p) ''$set'')"
  by (simp_all add: finalize_update_def op_fields_def finalize_fields_def)

text \<open>One finalize: the record of the game afterwards.\<close>

lemma finalize_once:
  assumes valid: "\<not> finalize_missing (js_or body (JObj []))"
    and nofault: "finalize_fault env = None"
    and pdn: "generatePDN (finalize_date env) (finalize_game (js_or body (JObj []))) = Inr p"
  shows "\<exists>s' d'. roblox_games_finalize env s body = (Inr ok, s')
     \<and> find (matches (JObj [(''gameId'', get (js_or body (JObj [])) ''gameId'')])) (Games s') = Some d'
     \<and> (\<forall>k \<in> set finalize_fields. get d' k = get (get (finalize_update env (js_or body (JObj [])) p) ''$set'') k)
     \<and> (\<forall>d. find (matches (JObj [(''gameId'', get (js_or body (JObj [])) ''gameId'')])) (Games s) = Some d \<longrightarrow>
            length (Games s') = length (Games s) \<and> (\<forall>k. k \<notin> set finalize_fields \<longrightarrow> get d' k = get d k))
     \<and> (find (matches (JObj [(''gameId'', get (js_or body (JObj [])) ''gameId'')])) (Games s) = None \<longrightarrow>
            Games s' = Games s @ [d'] \<and> get d' ''createdAt'' = JNum (finalize_createdAt_now env))"
proof -
  let ?g = "js_or body (JObj [])"
  let ?q = "JObj [(''gameId'', get ?g ''gameId'')]"
  let ?u = "finalize_update env ?g p"
  have gid: "get ?g ''gameId'' \<noteq> JUndefined"
    using valid by (auto simp: finalize_missing_def)
  have key: "''gameId'' \<notin> fst ` set (op_fields ?u ''$set'')"
    by (simp add: finalize_ops finalize_fields_def)
  have run: "roblox_games_finalize env s body =
      (case updateOne (Games s) ?q ?u None of Inl e \<Rightarrow> (Inl e, s) | Inr games \<Rightarrow> (Inr ok, s\<lparr>Games := games\<rparr>))"
    using valid nofault pdn by (simp add: roblox_games_finalize_def Let_def del: get.simps)
  show ?thesis
  proof (cases "find (matches ?q) (Games s)")
    case (Some d)
    from updateOne_existing[OF Some gid finalize_ops(1) finalize_ops(5) finalize_ops(4) key finalize_update_paths]
    obtain pre post d' where
      "Games s = pre @ d # post"
      "updateOne (Games s) ?q ?u None = Inr (pre @ d' # post)"
      "find (matches ?q) (pre @ d' # post) = Some d'"
      "\<forall>k. get d' k = (if k \<in> fst ` set (op_fields ?u ''$set'') then get (JObj (op_fields ?u ''$set'')) k else get d k)"
      by blast
    with Some run show ?thesis
      by (intro exI[of _ "s\<lparr>Games := pre @ d' # post\<rparr>"] exI[of _ d'])
         (simp add: finalize_ops del: get.simps)
  next
    case None
    from updateOne_insert[OF None, of ?u]
    obtain d' where
      u: "updateOne (Games s) ?q ?u None = Inr (Games s @ [d'])" and
      g: "\<forall>k. get d' k =
            (if k \<in> fst ` set (op_fields ?u ''$setOnInsert'') then get (JObj (op_fields ?u ''$setOnInsert'')) k
             else if k \<in> fst ` set (op_fields ?u ''$set'') then get (JObj (op_fields ?u ''$set'')) k
             else get ?q k)"
      using finalize_update_paths[of env ?g p] finalize_ops(1,4,5)[of env ?g p]
      by (auto simp: finalize_ops(2))
    from g have "get d' ''gameId'' = get ?g ''gameId''"
      by (simp add: finalize_ops finalize_fields_def del: get.simps) simp
    then have "find (matches ?q) (Games s @ [d']) = Some d'"
      using None by (intro find_append_new) (simp_all add: matches_single del: get.simps)
    moreover have "\<forall>k \<in> set finalize_fields. get d' k = get (get ?u ''$set'') k"
      using g by (simp add: finalize_ops(2,3,6) finalize_fields_def del: get.simps)
    moreover have "get d' ''createdAt'' = JNum (finalize_createdAt_now env)"
      using g by (simp add: finalize_ops(2))
    ultimately show ?thesis
      using None run u by (intro exI[of _ "s\<lparr>Games := Games s @ [d']\<rparr>"] exI[of _ d']) simp
  qed
qed

text \<open>
  C7. Two valid finalize calls for the same \<open>gameId\<close>, when the store answers and the
  formatter returns: both are answered \<open>{ok: true}\<close>, the game has one record, its
  \<open>status\<close> is finished after each call, after the second call every field that a
  finalize sets (among them \<open>result\<close>, \<open>moves\<close> and the cached \<open>pdn\<close>) has the value of
  the second call, and \<open>createdAt\<close> is what it was after the first call (the time of
  the first call when the game had no record before).
\<close>

theorem finalize_overwrites:
  fixes body1 body2 :: jsval
  defines "g1 \<equiv> js_or body1 (JObj [])" and "g2 \<equiv> js_or body2 (JObj [])"
  assumes valid1: "\<not> finalize_missing g1" and valid2: "\<not> finalize_missing g2"
    and same: "get g2 ''gameId'' = get g1 ''gameId''"
    and nofault1: "finalize_fault env1 = None" and nofault2: "finalize_fault env2 = None"
    and pdn1: "generatePDN (finalize_date env1) (finalize_game g1) = Inr p1"
    and pdn2: "generatePDN (finalize_date env2) (finalize_game g2) = Inr p2"
  shows "\<exists>s1 s2 d1 d2.
       roblox_games_finalize env1 s body1 = (Inr ok, s1)
     \<and> roblox_games_finalize env2 s1 body2 = (Inr ok, s2)
     \<and> find (matches (JObj [(''gameId'', get g1 ''gameId'')])) (Games s1) = Some d1
     \<and> find (matches (JObj [(''gameId'', get g1 ''gameId'')])) (Games s2) = Some d2
     \<and> length (Games s2) = length (Games s1)
     \<and> get d1 ''status'' = JStr ''finished''
     \<and> get d2 ''status'' = JStr ''finished''
     \<and> get d2 ''createdAt'' = get d1 ''createdAt''
     \<and> (find (matches (JObj [(''gameId'', get g1 ''gameId'')])) (Games s) = None \<longrightarrow>
          get d1 ''createdAt'' = JNum (finalize_createdAt_now env1))
     \<and> get d2 ''result'' = get g2 ''result''
     \<and> get d2 ''moves'' = get g2 ''moves''
     \<and> get d2 ''pdn'' = JObj [(''tags'', JObj (tags p2)), (''text'', JStr (text p2))]
     \<and> (\<forall>k \<in> set finalize_fields. get d2 k = get (get (finalize_update env2 g2 p2) ''$set'') k)"
proof -
  let ?q = "JObj [(''gameId'', get g1 ''gameId'')]"
  from finalize_once[OF valid1[unfolded g1_def] nofault1 pdn1[unfolded g1_def], of s]
  obtain s1 d1 where
    r1: "roblox_games_finalize env1 s body1 = (Inr ok, s1)" and
    f1: "find (matches ?q) (Games s1) = Some d1" and
    v1: "\<forall>k \<in> set finalize_fields. get d1 k = get (get (finalize_update env1 g1 p1) ''$set'') k" and
    n1: "find (matches ?q) (Games s) = None \<longrightarrow> get d1 ''createdAt'' = JNum (finalize_createdAt_now env1)"
    unfolding g1_def by (elim exE conjE) simp
  from finalize_once[OF valid2[unfolded g2_def] nofault2 pdn2[unfolded g2_def], of s1]
  obtain s2 d2 where
    r2: "roblox_games_finalize env2 s1 body2 = (Inr ok, s2)" and
    f2: "find (matches ?q) (Games s2) = Some d2" and
    v2: "\<forall>k \<in> set finalize_fields. get d2 k = get (get (finalize_update env2 g2 p2) ''$set'') k" and
    k2: "\<forall>d. find (matches ?q) (Games s1) = Some d \<longrightarrow>
            length (Games s2) = length (Games s1) \<and> (\<forall>k. k \<notin> set finalize_fields \<longrightarrow> get d2 k = get d k)"
    using same unfolding g2_def g1_def by auto
  from k2 f1 have len: "length (Games s2) = length (Games s1)"
    and keep: "\<forall>k. k \<notin> set finalize_fields \<longrightarrow> get d2 k = get d1 k" by blast+
  have c: "get d2 ''createdAt'' = get d1 ''createdAt''"
    using keep by (simp add: finalize_fields_def)
  have st1: "get d1 ''status'' = JStr ''finished''"
    using v1 by (simp add: finalize_fields_def finalize_update_def del: get.simps) simp
  have st2: "get d2 ''status'' = JStr ''finished''"
    and "get d2 ''result'' = get g2 ''result''"
    and "get d2 ''moves'' = get g2 ''moves''"
    and "get d2 ''pdn'' = JObj [(''tags'', JObj (tags p2)), (''text'', JStr (text p2))]"
    using v2 by (simp_all add: finalize_fields_def finalize_update_def)
  with r1 r2 f1 f2 len st1 c v2 n1 show ?thesis
    by (intro exI[of _ s1] exI[of _ s2] exI[of _ d1] exI[of _ d2]) simp
qed

lemma example_final_pdn:
  "\<exists>p. generatePDN example_date (finalize_game (js_or example_final (JObj []))) = Inr p"
  by (simp add: generatePDN_def finalize_game_def example_final_def js_or_def nullish_def
      opt_get_def movetext_of_def loop_bound_def pdn_loop.simps pair_text_def)

lemma example_final_again_pdn:
  "\<exists>p. generatePDN example_date (finalize_game (js_or example_final_again (JObj []))) = Inr p"
  by (simp add: generatePDN_def finalize_game_def example_final_again_def js_or_def nullish_def
      opt_get_def movetext_of_def loop_bound_def pdn_loop.simps pair_text_def)

theorem finalize_overwrites_witness:
  "\<not> finalize_missing (js_or example_final (JObj []))
   \<and> \<not> finalize_missing (js_or example_final_again (JObj []))
   \<and> get (js_or example_final_again (JObj [])) ''gameId'' = get (js_or example_final (JObj [])) ''gameId''
   \<and> finalize_fault quiet_finalize = None \<and> finalize_fault later_finalize = None
   \<and> (\<exists>p1 p2 s1 s2 d1 d2.
         generatePDN (finalize_date quiet_finalize) (finalize_game (js_or example_final (JObj []))) = Inr p1
       \<and> generatePDN (finalize_date later_finalize) (finalize_game (js_or example_final_again (JObj []))) = Inr p2
       \<and> roblox_games_finalize quiet_finalize empty_store example_final = (Inr ok, s1)
       \<and> roblox_games_finalize later_finalize s1 example_final_again = (Inr ok, s2)
       \<and> find (matches (JObj [(''gameId'', JStr ''g1'')])) (Games s1) = Some d1
       \<and> find (matches (JObj [(''gameId'', JStr ''g1'')])) (Games s2) = Some d2
       \<and> length (Games s2) = length (Games s1)
       \<and> get d1 ''status'' = JStr ''finished''
       \<and> get d2 ''status'' = JStr ''finished''
       \<and> get d1 ''createdAt'' = JNum 30
       \<and> get d2 ''createdAt'' = JNum 30
       \<and> get d2 ''updatedAt'' = JNum 51
       \<and> get d2 ''result'' = JStr ''0-1''
       \<and> get d2 ''moves'' = JArr [JObj [(''notation'', JStr ''32-28'')], JObj [(''notation'', JStr ''19-23'')]]
       \<and> get d2 ''pdn'' = JObj [(''tags'', JObj (tags p2)), (''text'', JStr (text p2))])"
proof -
  have v1: "\<not> finalize_missing (js_or example_final (JObj []))"
    by (simp add: finalize_missing_def example_final_def js_or_def)
  have v2: "\<not> finalize_missing (js_or example_final_again (JObj []))"
    by (simp add: finalize_missing_def example_final_again_def js_or_def)
  have g1: "get (js_or example_final (JObj [])) ''gameId'' = JStr ''g1''"
    by (simp add: example_final_def js_or_def)
  have g2: "get (js_or example_final_again (JObj [])) ''gameId'' = JStr ''g1''"
    by (simp add: example_final_again_def js_or_def)
  have q: "finalize_fault quiet_finalize = None" "finalize_date quiet_finalize = example_date"
    "finalize_createdAt_now quiet_finalize = 30"
    by (simp_all add: quiet_finalize_def)
  have q': "finalize_fault later_finalize = None" "finalize_date later_finalize = example_date"
    by (simp_all add: later_finalize_def)
  from example_final_pdn obtain p1 where
    p1: "generatePDN (finalize_date quiet_finalize) (finalize_game (js_or example_final (JObj []))) = Inr p1"
    unfolding q by blast
  from example_final_again_pdn obtain p2 where
    p2: "generatePDN (finalize_date later_finalize) (finalize_game (js_or example_final_again (JObj []))) = Inr p2"
    unfolding q' by blast
  have r: "get (js_or example_final_again (JObj [])) ''result'' = JStr ''0-1''"
    "get (js_or example_final_again (JObj [])) ''moves'' = JArr [JObj [(''notation'', JStr ''32-28'')], JObj [(''notation'', JStr ''19-23'')]]"
    by (simp_all add: example_final_again_def js_or_def)
  have none: "find (matches (JObj [(''gameId'', JStr ''g1'')])) (Games empty_store) = None"
    by (simp add: empty_store_def)
  from finalize_overwrites[OF v1 v2 _ q(1) q'(1) p1 p2, of empty_store] g1 g2 r none q(3)
  obtain s1 s2 d1 d2 where w:
       "roblox_games_finalize quiet_finalize empty_store example_final = (Inr ok, s1)"
       "roblox_games_finalize later_finalize s1 example_final_again = (Inr ok, s2)"
       "find (matches (JObj [(''gameId'', JStr ''g1'')])) (Games s1) = Some d1"
       "find (matches (JObj [(''gameId'', JStr ''g1'')])) (Games s2) = Some d2"
       "length (Games s2) = length (Games s1)"
       "get d1 ''status'' = JStr ''finished''"
       "get d2 ''status'' = JStr ''finished''"
       "get d2 ''createdAt'' = get d1 ''createdAt''"
       "get d1 ''createdAt'' = JNum 30"
       "get d2 ''result'' = JStr ''0-1''"
       "get d2 ''moves'' = JArr [JObj [(''notation'', JStr ''32-28'')], JObj [(''notation'', JStr ''19-23'')]]"
       "get d2 ''pdn'' = JObj [(''tags'', JObj (tags p2)), (''text'', JStr (text p2))]"
       "\<forall>k \<in> set finalize_fields. get d2 k = get (get (finalize_update later_finalize (js_or example_final_again (JObj [])) p2) ''$set'') k"
    by auto
  from w(13) have "get d2 ''updatedAt'' = JNum 51"
    by (simp add: finalize_fields_def finalize_update_def later_finalize_def)
  with w v1 v2 g1 g2 q(1) q'(1) p1 p2 show ?thesis
    by (intro conjI exI[of _ p1] exI[of _ p2] exI[of _ s1] exI[of _ s2] exI[of _ d1] exI[of _ d2]) simp_all
qed

subsection \<open>The export\<close>

text \<open>
  C9. When the store answers: for a \<open>gameId\<close> without a Game record the export replies
  404 ``Not found''; for a record that holds a cached notation text (a truthy
  \<open>pdn.text\<close>: a non-empty string) it replies exactly that text; for a record without
  one it replies the text that the Notation Formatter computes from the stored record
  (and is rejected with the formatter's error if the formatter raises). The store is the
  same afterwards in every case.
\<close>

theorem export_pdn_cases:
  assumes nofault: "export_fault env = None"
  shows "(find (matches (JObj [(''gameId'', JStr gameId)])) (Games s) = None \<longrightarrow>
            games_pdn env s gameId = (Inr (Send 404 (JStr ''Not found'')), s))
       \<and> (\<forall>g. find (matches (JObj [(''gameId'', JStr gameId)])) (Games s) = Some g
                 \<and> truthy (opt_get (get g ''pdn'') ''text'') \<longrightarrow>
            games_pdn env s gameId = (Inr (SendPlain 200 (get (get g ''pdn'') ''text'')), s))
       \<and> (\<forall>g. find (matches (JObj [(''gameId'', JStr gameId)])) (Games s) = Some g
                 \<and> \<not> truthy (opt_get (get g ''pdn'') ''text'') \<longrightarrow>
            games_pdn env s gameId =
              (case generatePDN (export_date env) g of
                 Inl e \<Rightarrow> (Inl e, s)
               | Inr p \<Rightarrow> (Inr (SendPlain 200 (JStr (text p))), s)))
       \<and> snd (games_pdn env s gameId) = s"
proof (intro conjI allI impI)
  let ?q = "JObj [(''gameId'', JStr gameId)]"
  have found: "truthy g" if "find (matches ?q) (Games s) = Some g" for g
  proof -
    from that have "matches ?q g" by (rule find_Some_P)
    then show ?thesis
      using get_defined_obj[of g "''gameId''"] by (auto simp: matches_single)
  qed
  show "games_pdn env s gameId = (Inr (Send 404 (JStr ''Not found'')), s)"
    if "find (matches ?q) (Games s) = None"
    using that nofault by (simp add: games_pdn_def findOne_def)
  show "games_pdn env s gameId = (Inr (SendPlain 200 (get (get g ''pdn'') ''text'')), s)"
    if "find (matches ?q) (Games s) = Some g \<and> truthy (opt_get (get g ''pdn'') ''text'')" for g
    using that found[of g] nofault by (simp add: games_pdn_def findOne_def)
  show "games_pdn env s gameId =
              (case generatePDN (export_date env) g of
                 Inl e \<Rightarrow> (Inl e, s)
               | Inr p \<Rightarrow> (Inr (SendPlain 200 (JStr (text p))), s))"
    if "find (matches ?q) (Games s) = Some g \<and> \<not> truthy (opt_get (get g ''pdn'') ''text'')" for g
    using that found[of g] nofault by (simp add: games_pdn_def findOne_def)
  show "snd (games_pdn env s gameId) = s"
    by (simp add: games_pdn_def split: sum.splits)
qed

theorem export_pdn_cases_witness:
  \<open>export_fault quiet_export = None
   \<and> find (matches (JObj [(''gameId'', JStr ''g1'')])) (Games empty_store) = None
   \<and> games_pdn quiet_export empty_store ''g1'' = (Inr (Send 404 (JStr ''Not found'')), empty_store)
   \<and> find (matches (JObj [(''gameId'', JStr ''g1'')])) (Games example_finished_store) = Some example_finished_game
   \<and> truthy (opt_get (get example_finished_game ''pdn'') ''text'')
   \<and> games_pdn quiet_export example_finished_store ''g1''
        = (Inr (SendPlain 200 (JStr ''1. 32-28 1-0'')), example_finished_store)
   \<and> find (matches (JObj [(''gameId'', JStr ''g2'')])) (Games example_uncached_store) = Some example_uncached_game
   \<and> \<not> truthy (opt_get (get example_uncached_game ''pdn'') ''text'')
   \<and> games_pdn quiet_export example_uncached_store ''g2''
        = (Inr (SendPlain 200 (JStr (''[Event "Kid Draughts"]\<newline>[Site "Roblox"]\<newline>[Date "'' @ date_tag example_date
             @ ''"]\<newline>[Round "?"]\<newline>[White "White"]\<newline>[Black "Black"]\<newline>[Result "1-0"]\<newline>[GameType "20"]\<newline>\<newline>1. 32-28 1-0''))),
           example_uncached_store)\<close>
proof -
  have q: "export_fault quiet_export = None" "export_date quiet_export = example_date"
    by (simp_all add: quiet_export_def)
  have f0: "find (matches (JObj [(''gameId'', JStr ''g1'')])) (Games empty_store) = None"
    by (simp add: empty_store_def)
  have f1: "find (matches (JObj [(''gameId'', JStr ''g1'')])) (Games example_finished_store) = Some example_finished_game"
    by (simp add: example_finished_store_def example_finished_game_def matches_def)
  have t1: "truthy (opt_get (get example_finished_game ''pdn'') ''text'')"
    "get (get example_finished_game ''pdn'') ''text'' = JStr ''1. 32-28 1-0''"
    by (simp_all add: example_finished_game_def opt_get_def nullish_def)
  have f2: "find (matches (JObj [(''gameId'', JStr ''g2'')])) (Games example_uncached_store) = Some example_uncached_game"
    by (simp add: example_uncached_store_def example_uncached_game_def matches_def)
  have t2: "\<not> truthy (opt_get (get example_uncached_game ''pdn'') ''text'')"
    by (simp add: example_uncached_game_def opt_get_def nullish_def)
  have p2: \<open>generatePDN example_date example_uncached_game =
      Inr \<lparr>tags = [(''Event'', JStr ''Kid Draughts''), (''Site'', JStr ''Roblox''),
                   (''Date'', JStr (date_tag example_date)), (''Round'', JStr ''?''),
                   (''White'', JStr ''White''), (''Black'', JStr ''Black''),
                   (''Result'', JStr ''1-0''), (''GameType'', JStr ''20'')],
            text = ''[Event "Kid Draughts"]\<newline>[Site "Roblox"]\<newline>[Date "'' @ date_tag example_date
             @ ''"]\<newline>[Round "?"]\<newline>[White "White"]\<newline>[Black "Black"]\<newline>[Result "1-0"]\<newline>[GameType "20"]\<newline>\<newline>1. 32-28 1-0''\<rparr>\<close>
    by (simp add: example_uncached_game_def generatePDN_def movetext_of_def loop_bound_def
        pdn_loop.simps pair_text_def digit_char_def nullish_def opt_get_def js_or_def
        gameTypeForVariant_def tag_line_def trim_def is_ws_def)
  from export_pdn_cases[OF q(1), of "''g1''" empty_store] f0
  have a: "games_pdn quiet_export empty_store ''g1'' = (Inr (Send 404 (JStr ''Not found'')), empty_store)"
    by simp
  from export_pdn_cases[OF q(1), of "''g1''" example_finished_store] f1 t1
  have b: "games_pdn quiet_export example_finished_store ''g1''
        = (Inr (SendPlain 200 (JStr ''1. 32-28 1-0'')), example_finished_store)"
    by simp
  from export_pdn_cases[OF q(1), of "''g2''" example_uncached_store] f2 t2 p2 q(2)
  have c: \<open>games_pdn quiet_export example_uncached_store ''g2''
        = (Inr (SendPlain 200 (JStr (''[Event "Kid Draughts"]\<newline>[Site "Roblox"]\<newline>[Date "'' @ date_tag example_date
             @ ''"]\<newline>[Round "?"]\<newline>[White "White"]\<newline>[Black "Black"]\<newline>[Result "1-0"]\<newline>[GameType "20"]\<newline>\<newline>1. 32-28 1-0''))),
           example_uncached_store)\<close>
    by simp
  from q(1) f0 a f1 t1(1) b f2 t2 c show ?thesis by blast
qed

section \<open>Properties of the event handlers\<close>

subsection \<open>The required fields\<close>

lemma replies_distinct:
  "ok \<noteq> missing_fields" "ok_deduped \<noteq> missing_fields" "db_error \<noteq> missing_fields"
  by (simp_all add: ok_def ok_deduped_def db_error_def missing_fields_def)

lemma roblox_events_missing_iff:
  "fst (roblox_events env s body) = Inr missing_fields \<longleftrightarrow> events_missing (js_or body (JObj []))"
  by (auto simp: roblox_events_def Let_def replies_distinct split: sum.splits)

lemma roblox_events_v0_missing_iff:
  "fst (roblox_events_v0 env s body) = Inr missing_fields \<longleftrightarrow> events_missing_v0 (js_or body (JObj []))"
  by (auto simp: roblox_events_v0_def Let_def replies_distinct split: sum.splits)

text \<open>
  C4, as amended. In both versions of the handler, a request in which \<open>eventId\<close>,
  \<open>userId\<close>, \<open>type\<close> or \<open>ts\<close> is missing is answered 400 \<open>missing_fields\<close> and the store
  is not touched, whatever the store would have answered. In the handler of
  \<open>src/unnamed/part_000\<close> a request passes the test exactly when \<open>eventId\<close>, \<open>type\<close> and \<open>ts\<close>
  are truthy (so not the empty string, 0, \<open>null\<close> or \<open>false\<close>) and \<open>userId\<close> is not
  \<open>undefined\<close>: \<open>userId = 0\<close> passes, \<open>ts = 0\<close> does not. In the handler of
  \<open>src/index.js\<close> a request with four truthy fields passes.
\<close>

theorem events_required_fields:
  fixes body :: jsval
  defines "b \<equiv> js_or body (JObj [])"
  shows "(get b ''eventId'' = JUndefined \<or> get b ''userId'' = JUndefined
          \<or> get b ''type'' = JUndefined \<or> get b ''ts'' = JUndefined \<longrightarrow>
            roblox_events env s body = (Inr missing_fields, s)
          \<and> roblox_events_v0 env s body = (Inr missing_fields, s))
       \<and> (fst (roblox_events env s body) \<noteq> Inr missing_fields \<longleftrightarrow>
            truthy (get b ''eventId'') \<and> get b ''userId'' \<noteq> JUndefined
            \<and> truthy (get b ''type'') \<and> truthy (get b ''ts''))
       \<and> (truthy (get b ''eventId'') \<and> truthy (get b ''userId'')
            \<and> truthy (get b ''type'') \<and> truthy (get b ''ts'') \<longrightarrow>
            fst (roblox_events_v0 env s body) \<noteq> Inr missing_fields)"
proof (intro conjI impI)
  assume "get b ''eventId'' = JUndefined \<or> get b ''userId'' = JUndefined
          \<or> get b ''type'' = JUndefined \<or> get b ''ts'' = JUndefined"
  then have "events_missing b" "events_missing_v0 b"
    by (auto simp: events_missing_def events_missing_v0_def)
  then show "roblox_events env s body = (Inr missing_fields, s)"
    and "roblox_events_v0 env s body = (Inr missing_fields, s)"
    by (simp_all add: roblox_events_def roblox_events_v0_def b_def)
next
  show "fst (roblox_events env s body) \<noteq> Inr missing_fields \<longleftrightarrow>
            truthy (get b ''eventId'') \<and> get b ''userId'' \<noteq> JUndefined
            \<and> truthy (get b ''type'') \<and> truthy (get b ''ts'')"
    unfolding roblox_events_missing_iff b_def by (auto simp: events_missing_def)
next
  assume "truthy (get b ''eventId'') \<and> truthy (get b ''userId'')
            \<and> truthy (get b ''type'') \<and> truthy (get b ''ts'')"
  then show "fst (roblox_events_v0 env s body) \<noteq> Inr missing_fields"
    unfolding roblox_events_v0_missing_iff b_def by (auto simp: events_missing_v0_def)
qed

text \<open>
  C4, as stated, fails: a request in which all four fields are present, with
  \<open>userId = 0\<close> and \<open>ts = 0\<close>, is answered \<open>missing_fields\<close>, because \<open>!ts\<close> holds for 0.
\<close>

theorem events_zero_ts_counterexample:
  "get example_zero_event ''eventId'' \<noteq> JUndefined
   \<and> get example_zero_event ''userId'' = JNum 0
   \<and> get example_zero_event ''type'' \<noteq> JUndefined
   \<and> get example_zero_event ''ts'' = JNum 0
   \<and> roblox_events quiet_events empty_store example_zero_event = (Inr missing_fields, empty_store)"
  by (simp add: roblox_events_def events_missing_def js_or_def example_zero_event_def)

theorem events_required_fields_witness:
  "get (js_or example_no_user (JObj [])) ''userId'' = JUndefined
   \<and> roblox_events quiet_events empty_store example_no_user = (Inr missing_fields, empty_store)
   \<and> roblox_events_v0 quiet_events empty_store example_no_user = (Inr missing_fields, empty_store)
   \<and> get (js_or (JObj [(''eventId'', JStr ''e5''), (''userId'', JNum 0), (''type'', JStr ''login''),
                        (''ts'', JNum 100)]) (JObj [])) ''userId'' = JNum 0
   \<and> fst (roblox_events quiet_events empty_store
             (JObj [(''eventId'', JStr ''e5''), (''userId'', JNum 0), (''type'', JStr ''login''),
                    (''ts'', JNum 100)]))
      \<noteq> Inr missing_fields
   \<and> truthy (get (js_or example_login (JObj [])) ''userId'')
   \<and> fst (roblox_events_v0 quiet_events empty_store example_login) \<noteq> Inr missing_fields"
  using events_required_fields[of example_no_user quiet_events empty_store]
    events_required_fields[of "JObj [(''eventId'', JStr ''e5''), (''userId'', JNum 0),
        (''type'', JStr ''login''), (''ts'', JNum 100)]" quiet_events empty_store]
    events_required_fields[of example_login quiet_events empty_store]
  by (simp add: js_or_def example_no_user_def example_login_def)

subsection \<open>The insert of the event\<close>

lemma string_of_11000: "ToString (JNum 11000) = Inr ''11000''"
  by (simp add: string_of_int_def digit_char_def)

lemma event_document_eventId:
  "event_document env b = Inr d \<Longrightarrow> get d ''eventId'' = get b ''eventId''"
  by (auto simp: event_document_def split: sum.splits)

lemma event_document_env:
  "event_document env b = Inr d \<Longrightarrow> \<exists>d'. event_document env' b = Inr d'"
  by (auto simp: event_document_def split: sum.splits)

lemma event_document_v0_eventId:
  "event_document_v0 env b = Inr d \<Longrightarrow> get d ''eventId'' = get b ''eventId''"
  by (auto simp: event_document_v0_def split: sum.splits)

lemma event_document_v0_env:
  "event_document_v0 env b = Inr d \<Longrightarrow> \<exists>d'. event_document_v0 env' b = Inr d'"
  by (auto simp: event_document_v0_def split: sum.splits)

lemma count_key_unique:
  "unique_index key coll \<Longrightarrow> list_ex (\<lambda>d. get d key = v) coll \<Longrightarrow> count_key key v coll = 1"
proof (induction coll)
  case Nil
  then show ?case by simp
next
  case (Cons d coll)
  show ?case
  proof (cases "get d key = v")
    case True
    from Cons.prems(1) have "get d key \<notin> (\<lambda>x. get x key) ` set coll"
      by (simp add: unique_index_def)
    with True have "\<forall>x \<in> set coll. get x key \<noteq> v"
      by blast
    then have "filter (\<lambda>d. get d key = v) coll = []"
      by (simp add: filter_empty_conv)
    with True show ?thesis by (simp add: count_key_def)
  next
    case False
    with Cons show ?thesis by (simp add: count_key_def unique_index_def)
  qed
qed

lemma unique_index_append:
  "unique_index key coll \<Longrightarrow> \<not> list_ex (\<lambda>x. get x key = get d key) coll \<Longrightarrow> unique_index key (coll @ [d])"
  by (auto simp: unique_index_def list_ex_iff)

text \<open>The insert of a handler, as the \<open>try\<close> block sees it.\<close>

lemma insertOne_duplicate:
  "list_ex (\<lambda>x. get x key = get d key) coll \<Longrightarrow> insertOne key coll d None = Inl (StoreError (JNum 11000))"
  by (simp add: insertOne_def)

lemma insertOne_fresh:
  "\<not> list_ex (\<lambda>x. get x key = get d key) coll \<Longrightarrow> insertOne key coll d None = Inr (coll @ [d])"
  by (simp add: insertOne_def)

lemma roblox_events_duplicate:
  assumes "\<not> events_missing (js_or body (JObj []))"
    and "event_document env (js_or body (JObj [])) = Inr d"
    and "insert_fault env = None"
    and "list_ex (\<lambda>x. get x ''eventId'' = get (js_or body (JObj [])) ''eventId'') (Events s)"
  shows "roblox_events env s body = (Inr ok_deduped, s)"
  using assms event_document_eventId[OF assms(2)]
  by (simp add: roblox_events_def insertOne_duplicate string_of_11000 del: ToString.simps)

lemma roblox_events_fresh:
  assumes "\<not> events_missing (js_or body (JObj []))"
    and "event_document env (js_or body (JObj [])) = Inr d"
    and "insert_fault env = None"
    and "\<not> list_ex (\<lambda>x. get x ''eventId'' = get (js_or body (JObj [])) ''eventId'') (Events s)"
  shows "fst (roblox_events env s body) = Inr ok"
    and "Events (snd (roblox_events env s body)) = Events s @ [d]"
    and "Games (snd (roblox_events env s body)) = Games s"
  using assms event_document_eventId[OF assms(2)]
  by (simp_all add: roblox_events_def insertOne_fresh split: sum.splits)

lemma roblox_events_v0_duplicate:
  assumes "\<not> events_missing_v0 (js_or body (JObj []))"
    and "event_document_v0 env (js_or body (JObj [])) = Inr d"
    and "insert_fault env = None"
    and "list_ex (\<lambda>x. get x ''eventId'' = get (js_or body (JObj [])) ''eventId'') (Events s)"
  shows "roblox_events_v0 env s body = (Inr ok_deduped, s)"
  using assms event_document_v0_eventId[OF assms(2)]
  by (simp add: roblox_events_v0_def insertOne_duplicate string_of_11000 del: ToString.simps)

lemma roblox_events_v0_fresh:
  assumes "\<not> events_missing_v0 (js_or body (JObj []))"
    and "event_document_v0 env (js_or body (JObj [])) = Inr d"
    and "insert_fault env = None"
    and "\<not> list_ex (\<lambda>x. get x ''eventId'' = get (js_or body (JObj [])) ''eventId'') (Events s)"
  shows "Events (snd (roblox_events_v0 env s body)) = Events s @ [d]"
  using assms event_document_v0_eventId[OF assms(2)]
  by (simp_all add: roblox_events_v0_def insertOne_fresh split: sum.splits)

lemma ToString_error:
  "ToString v = Inl e \<Longrightarrow> e = TypeError"
  "join_elems vs = Inl e \<Longrightarrow> e = TypeError"
  "elem_string v = Inl e \<Longrightarrow> e = TypeError"
  by (induction v and vs and v arbitrary: e and e and e rule: ToString_join_elems_elem_string.induct)
     (auto split: if_splits sum.splits)

lemma ToNumber_error: "ToNumber v = Inl e \<Longrightarrow> e = TypeError"
  by (cases v) (auto split: sum.splits if_splits dest: ToString_error)

lemma toInt_error: "toInt v f = Inl e \<Longrightarrow> e = TypeError"
  by (auto simp: toInt_def Number_def split: sum.splits option.splits dest: ToNumber_error)

lemma Number_error: "Number v = Inl e \<Longrightarrow> e = TypeError"
  by (auto simp: Number_def split: sum.splits option.splits dest: ToNumber_error)

lemma event_document_error: "event_document env b = Inl e \<Longrightarrow> e = TypeError"
  by (auto simp: event_document_def split: sum.splits dest: toInt_error)

lemma event_document_v0_error: "event_document_v0 env b = Inl e \<Longrightarrow> e = TypeError"
  by (auto simp: event_document_v0_def split: sum.splits dest: Number_error)

lemma roblox_events_insert_failure:
  assumes "\<not> events_missing (js_or body (JObj []))"
    and "insert_fault env = Some e" and "ToString (err_code e) = Inr c" and "c \<noteq> ''11000''"
  shows "roblox_events env s body = (Inr db_error, s)"
proof (cases "event_document env (js_or body (JObj []))")
  case (Inl e')
  then have "e' = TypeError" by (rule event_document_error)
  with Inl assms(1) show ?thesis by (simp add: roblox_events_def Let_def)
next
  case (Inr d)
  with assms show ?thesis by (simp add: roblox_events_def Let_def insertOne_def)
qed

lemma roblox_events_v0_insert_failure:
  assumes "\<not> events_missing_v0 (js_or body (JObj []))"
    and "insert_fault env = Some e" and "ToString (err_code e) = Inr c" and "c \<noteq> ''11000''"
  shows "roblox_events_v0 env s body = (Inr db_error, s)"
proof (cases "event_document_v0 env (js_or body (JObj []))")
  case (Inl e')
  then have "e' = TypeError" by (rule event_document_v0_error)
  with Inl assms(1) show ?thesis by (simp add: roblox_events_v0_def Let_def)
next
  case (Inr d)
  with assms show ?thesis by (simp add: roblox_events_v0_def Let_def insertOne_def)
qed

text \<open>The handlers keep the \<open>eventId\<close>s of the events distinct.\<close>

lemma insertOne_unique:
  "insertOne key coll d fault = Inr coll' \<Longrightarrow> unique_index key coll \<Longrightarrow> unique_index key coll'"
  by (auto simp: insertOne_def unique_index_append split: option.splits if_splits)

lemma roblox_events_unique:
  assumes "unique_index ''eventId'' (Events s)"
  shows "unique_index ''eventId'' (Events (snd (roblox_events env s body)))"
    and "unique_index ''eventId'' (Events (snd (roblox_events_v0 env s body)))"
  using assms
  by (auto simp: roblox_events_def roblox_events_v0_def Let_def split: sum.splits
      dest: insertOne_unique)

text \<open>
  C3. In both versions of the handler, for a store whose events have distinct
  \<open>eventId\<close>s and a valid event (it passes the required-field test and its document can
  be built), with the insert answered by the store: after one submission, a second
  submission of the same \<open>eventId\<close> is answered \<open>{ok: true, deduped: true}\<close> and changes
  nothing, and exactly one Event record with that \<open>eventId\<close> exists. An insert that
  the store rejects with a code other than 11000 is answered 500 \<open>db_error\<close> and changes
  nothing.
\<close>

theorem event_resubmission:
  fixes body :: jsval
  defines "b \<equiv> js_or body (JObj [])"
  assumes uniq: "unique_index ''eventId'' (Events s)"
    and quiet1: "insert_fault env1 = None" and quiet2: "insert_fault env2 = None"
  shows "(\<not> events_missing b \<and> (\<exists>d. event_document env1 b = Inr d) \<longrightarrow>
            (fst (roblox_events env1 s body) = Inr ok \<or> fst (roblox_events env1 s body) = Inr ok_deduped)
          \<and> roblox_events env2 (snd (roblox_events env1 s body)) body
               = (Inr ok_deduped, snd (roblox_events env1 s body))
          \<and> count_key ''eventId'' (get b ''eventId'') (Events (snd (roblox_events env1 s body))) = 1)
       \<and> (\<not> events_missing_v0 b \<and> (\<exists>d. event_document_v0 env1 b = Inr d) \<longrightarrow>
            roblox_events_v0 env2 (snd (roblox_events_v0 env1 s body)) body
               = (Inr ok_deduped, snd (roblox_events_v0 env1 s body))
          \<and> count_key ''eventId'' (get b ''eventId'') (Events (snd (roblox_events_v0 env1 s body))) = 1)
       \<and> (\<forall>e c. insert_fault env3 = Some e \<and> ToString (err_code e) = Inr c \<and> c \<noteq> ''11000'' \<longrightarrow>
            (\<not> events_missing b \<longrightarrow> roblox_events env3 s body = (Inr db_error, s))
          \<and> (\<not> events_missing_v0 b \<longrightarrow> roblox_events_v0 env3 s body = (Inr db_error, s)))"
proof (intro conjI allI impI)
  let ?same = "\<lambda>x. get x ''eventId'' = get b ''eventId''"
  {
    assume a: "\<not> events_missing b \<and> (\<exists>d. event_document env1 b = Inr d)"
    then obtain d where valid: "\<not> events_missing b" and d: "event_document env1 b = Inr d" by blast
    from event_document_env[OF d] obtain d' where d': "event_document env2 b = Inr d'" by blast
    let ?s1 = "snd (roblox_events env1 s body)"
    have "(fst (roblox_events env1 s body) = Inr ok \<or> fst (roblox_events env1 s body) = Inr ok_deduped)
        \<and> list_ex ?same (Events ?s1) \<and> unique_index ''eventId'' (Events ?s1)"
    proof (cases "list_ex ?same (Events s)")
      case True
      with roblox_events_duplicate[OF valid[unfolded b_def] d[unfolded b_def] quiet1, of s] uniq
      show ?thesis by (simp add: b_def)
    next
      case False
      from roblox_events_fresh[OF valid[unfolded b_def] d[unfolded b_def] quiet1, of s] False
      have "fst (roblox_events env1 s body) = Inr ok" "Events ?s1 = Events s @ [d]"
        by (simp_all add: b_def)
      moreover have "unique_index ''eventId'' (Events s @ [d])"
        using uniq False event_document_eventId[OF d] by (intro unique_index_append) simp_all
      moreover have "list_ex ?same (Events s @ [d])"
        using event_document_eventId[OF d] by simp
      ultimately show ?thesis by simp
    qed
    then have r1: "fst (roblox_events env1 s body) = Inr ok \<or> fst (roblox_events env1 s body) = Inr ok_deduped"
      and ex: "list_ex ?same (Events ?s1)" and u1: "unique_index ''eventId'' (Events ?s1)"
      by blast+
    from r1 show "fst (roblox_events env1 s body) = Inr ok \<or> fst (roblox_events env1 s body) = Inr ok_deduped" .
    from roblox_events_duplicate[OF valid[unfolded b_def] d'[unfolded b_def] quiet2, of ?s1] ex
    show "roblox_events env2 ?s1 body = (Inr ok_deduped, ?s1)" by (simp add: b_def)
    from count_key_unique[OF u1 ex]
    show "count_key ''eventId'' (get b ''eventId'') (Events ?s1) = 1" .
  }
  {
    assume a: "\<not> events_missing_v0 b \<and> (\<exists>d. event_document_v0 env1 b = Inr d)"
    then obtain d where valid: "\<not> events_missing_v0 b" and d: "event_document_v0 env1 b = Inr d" by blast
    from event_document_v0_env[OF d] obtain d' where d': "event_document_v0 env2 b = Inr d'" by blast
    let ?s1 = "snd (roblox_events_v0 env1 s body)"
    have "list_ex ?same (Events ?s1) \<and> unique_index ''eventId'' (Events ?s1)"
    proof (cases "list_ex ?same (Events s)")
      case True
      with roblox_events_v0_duplicate[OF valid[unfolded b_def] d[unfolded b_def] quiet1, of s] uniq
      show ?thesis by (simp add: b_def)
    next
      case False
      from roblox_events_v0_fresh[OF valid[unfolded b_def] d[unfolded b_def] quiet1, of s] False
      have "Events ?s1 = Events s @ [d]"
        by (simp_all add: b_def)
      moreover have "unique_index ''eventId'' (Events s @ [d])"
        using uniq False event_document_v0_eventId[OF d] by (intro unique_index_append) simp_all
      moreover have "list_ex ?same (Events s @ [d])"
        using event_document_v0_eventId[OF d] by simp
      ultimately show ?thesis by simp
    qed
    then have ex: "list_ex ?same (Events ?s1)" and u1: "unique_index ''eventId'' (Events ?s1)"
      by blast+
    from roblox_events_v0_duplicate[OF valid[unfolded b_def] d'[unfolded b_def] quiet2, of ?s1] ex
    show "roblox_events_v0 env2 ?s1 body = (Inr ok_deduped, ?s1)" by (simp add: b_def)
    from count_key_unique[OF u1 ex]
    show "count_key ''eventId'' (get b ''eventId'') (Events ?s1) = 1" .
  }
  {
    fix e c
    assume f: "insert_fault env3 = Some e \<and> ToString (err_code e) = Inr c \<and> c \<noteq> ''11000''"
    show "roblox_events env3 s body = (Inr db_error, s)" if "\<not> events_missing b"
      using that f roblox_events_insert_failure[of body env3 e c s] by (simp add: b_def)
    show "roblox_events_v0 env3 s body = (Inr db_error, s)" if "\<not> events_missing_v0 b"
      using that f roblox_events_v0_insert_failure[of body env3 e c s] by (simp add: b_def)
  }
qed

lemma example_login_valid:
  "\<not> events_missing (js_or example_login (JObj []))"
  "\<not> events_missing_v0 (js_or example_login (JObj []))"
  "get (js_or example_login (JObj [])) ''eventId'' = JStr ''e2''"
  by (simp_all add: events_missing_def events_missing_v0_def example_login_def js_or_def)

lemma example_login_document:
  "\<exists>d. event_document env (js_or example_login (JObj [])) = Inr d"
  "\<exists>d. event_document_v0 env (js_or example_login (JObj [])) = Inr d"
  by (simp_all add: event_document_def event_document_v0_def example_login_def js_or_def
      toInt_def Number_def get_default_def)

theorem event_resubmission_witness:
  "unique_index ''eventId'' (Events empty_store)
   \<and> insert_fault quiet_events = None
   \<and> \<not> events_missing (js_or example_login (JObj []))
   \<and> (\<exists>d. event_document quiet_events (js_or example_login (JObj [])) = Inr d)
   \<and> fst (roblox_events quiet_events empty_store example_login) = Inr ok
   \<and> roblox_events quiet_events (snd (roblox_events quiet_events empty_store example_login)) example_login
        = (Inr ok_deduped, snd (roblox_events quiet_events empty_store example_login))
   \<and> count_key ''eventId'' (JStr ''e2'')
        (Events (snd (roblox_events quiet_events empty_store example_login))) = 1
   \<and> \<not> events_missing_v0 (js_or example_login (JObj []))
   \<and> (\<exists>d. event_document_v0 quiet_events (js_or example_login (JObj [])) = Inr d)
   \<and> roblox_events_v0 quiet_events (snd (roblox_events_v0 quiet_events empty_store example_login)) example_login
        = (Inr ok_deduped, snd (roblox_events_v0 quiet_events empty_store example_login))
   \<and> count_key ''eventId'' (JStr ''e2'')
        (Events (snd (roblox_events_v0 quiet_events empty_store example_login))) = 1
   \<and> insert_fault failing_insert = Some (StoreError (JNum 6))
   \<and> ToString (err_code (StoreError (JNum 6))) = Inr ''6''
   \<and> roblox_events failing_insert empty_store example_login = (Inr db_error, empty_store)
   \<and> roblox_events_v0 failing_insert empty_store example_login = (Inr db_error, empty_store)"
proof -
  have u: "unique_index ''eventId'' (Events empty_store)"
    by (simp add: unique_index_def empty_store_def)
  have q: "insert_fault quiet_events = None"
    by (simp add: quiet_events_def)
  have f: "insert_fault failing_insert = Some (StoreError (JNum 6))"
    by (simp add: failing_insert_def)
  have c: "ToString (err_code (StoreError (JNum 6))) = Inr ''6''" "''6'' \<noteq> ''11000''"
    by (simp_all add: string_of_int_def digit_char_def)
  have fresh: "\<not> list_ex (\<lambda>x. get x ''eventId'' = get (js_or example_login (JObj [])) ''eventId'') (Events empty_store)"
    by (simp add: empty_store_def)
  from example_login_document(1)[of quiet_events] obtain d where
    d: "event_document quiet_events (js_or example_login (JObj [])) = Inr d" ..
  have first: "fst (roblox_events quiet_events empty_store example_login) = Inr ok"
    by (rule roblox_events_fresh(1)[OF example_login_valid(1) d q fresh])
  note r = event_resubmission[OF u q q, of example_login failing_insert]
  from r f c example_login_valid example_login_document[of quiet_events]
  have "roblox_events quiet_events (snd (roblox_events quiet_events empty_store example_login)) example_login
        = (Inr ok_deduped, snd (roblox_events quiet_events empty_store example_login))"
    and "count_key ''eventId'' (JStr ''e2'')
        (Events (snd (roblox_events quiet_events empty_store example_login))) = 1"
    and "roblox_events_v0 quiet_events (snd (roblox_events_v0 quiet_events empty_store example_login)) example_login
        = (Inr ok_deduped, snd (roblox_events_v0 quiet_events empty_store example_login))"
    and "count_key ''eventId'' (JStr ''e2'')
        (Events (snd (roblox_events_v0 quiet_events empty_store example_login))) = 1"
    and "roblox_events failing_insert empty_store example_login = (Inr db_error, empty_store)"
    and "roblox_events_v0 failing_insert empty_store example_login = (Inr db_error, empty_store)"
    by simp_all
  with u q f c(1) first example_login_valid(1,2) example_login_document[of quiet_events]
  show ?thesis by simp
qed

subsection \<open>The Player aggregate\<close>

lemma inc_of_cases:
  "inc_of (JStr ''match_end'') = [(''totals.games'', JNum 1)]"
  "inc_of (JStr ''lesson_step_completed'') = [(''totals.lessonSteps'', JNum 1)]"
  "t \<noteq> JStr ''match_end'' \<Longrightarrow> t \<noteq> JStr ''lesson_step_completed'' \<Longrightarrow> inc_of t = []"
  by (simp_all add: inc_of_def)

text \<open>
  The update document of a counted event names \<open>totals.games\<close> (or
  \<open>totals.lessonSteps\<close>) under \<open>$inc\<close> and \<open>totals\<close> under \<open>$setOnInsert\<close>: the paths
  conflict, in both versions of the handler.
\<close>

lemma player_update_conflict:
  assumes "t = JStr ''match_end'' \<or> t = JStr ''lesson_step_completed''"
  shows "conflicting (update_paths (player_update seen t at created))"
    and "conflicting (update_paths (player_update_v0 seen t created))"
  using assms
  by (auto simp: player_update_def player_update_v0_def inc_of_cases update_paths_def op_fields_def)

lemma updateOne_conflict:
  "conflicting (update_paths u) \<Longrightarrow> \<exists>e. updateOne coll q u fault = Inl e"
  by (cases fault) (simp_all add: updateOne_def)

lemma bump_player_counted:
  assumes "get b ''type'' = JStr ''match_end'' \<or> get b ''type'' = JStr ''lesson_step_completed''"
  shows "\<exists>e. bump_player env players b = Inl e"
    and "\<exists>e. bump_player_v0 env players b = Inl e"
  using updateOne_conflict[OF player_update_conflict(1)[OF assms]]
    updateOne_conflict[OF player_update_conflict(2)[OF assms]]
  by (auto simp: bump_player_def bump_player_v0_def split: sum.splits)

text \<open>
  So no event of type \<open>match_end\<close> or \<open>lesson_step_completed\<close> ever changes a Player
  record: the update is rejected, and the handler of \<open>src/unnamed/part_000\<close> swallows
  the rejection.
\<close>

lemma counted_event_leaves_players:
  assumes "get (js_or body (JObj [])) ''type'' = JStr ''match_end''
           \<or> get (js_or body (JObj [])) ''type'' = JStr ''lesson_step_completed''"
  shows "Players (snd (roblox_events env s body)) = Players s"
    and "Players (snd (roblox_events_v0 env s body)) = Players s"
  using bump_player_counted[OF assms, of env "Players s"]
  by (auto simp: roblox_events_def roblox_events_v0_def Let_def split: sum.splits)

text \<open>
  The handler of \<open>src/unnamed/part_000\<close> answers \<open>{ok: true}\<close> for a recorded event
  whatever happens to the Player update.
\<close>

lemma roblox_events_swallows_update_failure:
  assumes "\<not> events_missing (js_or body (JObj []))"
    and "event_document env (js_or body (JObj [])) = Inr d"
    and "insert_fault env = None"
    and "\<not> list_ex (\<lambda>x. get x ''eventId'' = get (js_or body (JObj [])) ''eventId'') (Events s)"
    and "bump_player env (Players s) (js_or body (JObj [])) = Inl e"
  shows "roblox_events env s body = (Inr ok, s\<lparr>Events := Events s @ [d]\<rparr>)"
  using assms event_document_eventId[OF assms(2)]
  by (simp add: roblox_events_def insertOne_fresh)

lemma toInt_number: "toInt v (JNum f) = Inr x \<Longrightarrow> \<exists>n. x = JNum n"
  by (auto simp: toInt_def Number_def split: sum.splits option.splits if_splits)

lemma player_update_other:
  assumes "t \<noteq> JStr ''match_end''" and "t \<noteq> JStr ''lesson_step_completed''"
  shows "op_fields (player_update seen t at created) ''$inc'' = []"
    and "op_fields (player_update seen t at created) ''$set'' =
           [(''lastSeenAt'', seen), (''lastEventType'', t), (''lastEventAt'', JNum at)]"
    and "op_fields (player_update seen t at created) ''$setOnInsert'' =
           [(''createdAt'', JNum created),
            (''totals'', JObj [(''games'', JNum 0), (''lessonSteps'', JNum 0)])]"
    and "\<not> conflicting (update_paths (player_update seen t at created))"
  using assms
  by (simp_all add: player_update_def inc_of_cases update_paths_def op_fields_def)

text \<open>
  The second half of C6: an accepted, new event whose type is neither \<open>match_end\<close> nor
  \<open>lesson_step_completed\<close> sets the last-seen fields of the Player of its user and
  leaves \<open>totals\<close> as it was; a Player that did not exist is created with zeroed
  counters.
\<close>

lemma other_event_sets_last_seen:
  fixes body :: jsval
  defines "b \<equiv> js_or body (JObj [])"
  assumes valid: "\<not> events_missing b"
    and doc: "event_document env b = Inr d"
    and quiet: "insert_fault env = None" "update_fault env = None"
    and fresh: "\<not> list_ex (\<lambda>x. get x ''eventId'' = get b ''eventId'') (Events s)"
    and other: "get b ''type'' \<noteq> JStr ''match_end''" "get b ''type'' \<noteq> JStr ''lesson_step_completed''"
    and uid: "toInt (get b ''userId'') (JNum 0) = Inr uid"
    and ts: "toInt (get b ''ts'') (JNum 0) = Inr t"
  shows "fst (roblox_events env s body) = Inr ok"
    and "find (matches (JObj [(''userId'', uid)])) (Players s) = Some p \<Longrightarrow>
           \<exists>pre post p'. Players s = pre @ p # post
             \<and> Players (snd (roblox_events env s body)) = pre @ p' # post
             \<and> get p' ''totals'' = get p ''totals''
             \<and> get p' ''lastSeenAt'' = times1000 t
             \<and> get p' ''lastEventType'' = get b ''type''
             \<and> get p' ''lastEventAt'' = JNum (lastEventAt_now env)"
    and "find (matches (JObj [(''userId'', uid)])) (Players s) = None \<Longrightarrow>
           \<exists>p'. Players (snd (roblox_events env s body)) = Players s @ [p']
             \<and> get p' ''userId'' = uid
             \<and> get p' ''totals'' = JObj [(''games'', JNum 0), (''lessonSteps'', JNum 0)]
             \<and> get p' ''lastSeenAt'' = times1000 t
             \<and> get p' ''lastEventType'' = get b ''type''
             \<and> get p' ''lastEventAt'' = JNum (lastEventAt_now env)"
proof -
  let ?q = "JObj [(''userId'', uid)]"
  let ?u = "player_update (times1000 t) (get b ''type'') (lastEventAt_now env) (createdAt_now env)"
  note ops = player_update_other[OF other, of "times1000 t" "lastEventAt_now env" "createdAt_now env"]
  have bump: "bump_player env (Players s) b = updateOne (Players s) ?q ?u None"
    using uid ts quiet(2) by (simp add: bump_player_def)
  have run: "roblox_events env s body =
      (case updateOne (Players s) ?q ?u None of
         Inl e \<Rightarrow> (Inr ok, s\<lparr>Events := Events s @ [d]\<rparr>)
       | Inr players \<Rightarrow> (Inr ok, s\<lparr>Events := Events s @ [d], Players := players\<rparr>))"
    using valid doc quiet(1) fresh bump event_document_eventId[OF doc]
    by (simp add: roblox_events_def b_def[symmetric] insertOne_fresh)
  show "fst (roblox_events env s body) = Inr ok"
    by (simp add: run split: sum.splits)
  from toInt_number[OF uid] have udef: "uid \<noteq> JUndefined" by auto
  {
    assume found: "find (matches ?q) (Players s) = Some p"
    from updateOne_existing[OF found udef, of ?u] obtain pre post p' where
      "Players s = pre @ p # post"
      "updateOne (Players s) ?q ?u None = Inr (pre @ p' # post)"
      "\<forall>k. get p' k = (if k \<in> fst ` set (op_fields ?u ''$set'')
                         then get (JObj (op_fields ?u ''$set'')) k else get p k)"
      using ops by auto
    then show "\<exists>pre post p'. Players s = pre @ p # post
             \<and> Players (snd (roblox_events env s body)) = pre @ p' # post
             \<and> get p' ''totals'' = get p ''totals''
             \<and> get p' ''lastSeenAt'' = times1000 t
             \<and> get p' ''lastEventType'' = get b ''type''
             \<and> get p' ''lastEventAt'' = JNum (lastEventAt_now env)"
      by (intro exI[of _ pre] exI[of _ post] exI[of _ p']) (simp add: run ops)
  }
  {
    assume none: "find (matches ?q) (Players s) = None"
    from updateOne_insert[OF none, of ?u] obtain p' where
      "updateOne (Players s) ?q ?u None = Inr (Players s @ [p'])"
      "\<forall>k. get p' k =
            (if k \<in> fst ` set (op_fields ?u ''$setOnInsert'')
             then get (JObj (op_fields ?u ''$setOnInsert'')) k
             else if k \<in> fst ` set (op_fields ?u ''$set'')
             then get (JObj (op_fields ?u ''$set'')) k
             else get ?q k)"
      using ops by auto
    then show "\<exists>p'. Players (snd (roblox_events env s body)) = Players s @ [p']
             \<and> get p' ''userId'' = uid
             \<and> get p' ''totals'' = JObj [(''games'', JNum 0), (''lessonSteps'', JNum 0)]
             \<and> get p' ''lastSeenAt'' = times1000 t
             \<and> get p' ''lastEventType'' = get b ''type''
             \<and> get p' ''lastEventAt'' = JNum (lastEventAt_now env)"
      by (intro exI[of _ p']) (simp add: run ops)
  }
qed

text \<open>
  In \<open>src/index.js\<close> the rejection of the conflicting update escapes as well: a new
  \<open>match_end\<close> event is recorded and the handler sends no reply, although the store
  answers every call.
\<close>

lemma events_v0_counted_event_escapes:
  "fst (roblox_events_v0 quiet_events empty_store example_match_end) = Inl (StoreError (JNum 40))
   \<and> count_key ''eventId'' (JStr ''e1'')
        (Events (snd (roblox_events_v0 quiet_events empty_store example_match_end))) = 1
   \<and> Players (snd (roblox_events_v0 quiet_events empty_store example_match_end)) = []"
  by (simp add: roblox_events_v0_def events_missing_v0_def
      example_match_end_def js_or_def event_document_v0_def Number_def
      insertOne_def empty_store_def quiet_events_def
      bump_player_v0_def updateOne_def count_key_def player_update_v0_def inc_of_def
      update_paths_def op_fields_def)

text \<open>
  C5 fails in \<open>src/index.js\<close>: the valid, new event \<open>example_login\<close> is recorded, the
  update of the Player aggregate is rejected by the store, and the handler sends no
  reply: its promise is rejected with the store's error. The handler of
  \<open>src/unnamed/part_000\<close> answers \<open>{ok: true}\<close> on the same input.
\<close>

theorem events_v0_update_failure_escapes:
  "fst (roblox_events_v0 failing_update empty_store example_login) = Inl (StoreError (JNum 6))
   \<and> count_key ''eventId'' (JStr ''e2'')
        (Events (snd (roblox_events_v0 failing_update empty_store example_login))) = 1
   \<and> fst (roblox_events failing_update empty_store example_login) = Inr ok
   \<and> count_key ''eventId'' (JStr ''e2'')
        (Events (snd (roblox_events failing_update empty_store example_login))) = 1"
  by (simp add: roblox_events_v0_def roblox_events_def events_missing_v0_def events_missing_def
      example_login_def js_or_def event_document_v0_def event_document_def Number_def toInt_def
      get_default_def insertOne_def empty_store_def failing_update_def quiet_events_def
      bump_player_v0_def bump_player_def updateOne_def count_key_def)

text \<open>
  C6 fails: one \<open>match_end\<close> event for the user 5, on the empty store, is recorded and
  answered \<open>{ok: true}\<close>, and no Player record exists afterwards, so \<open>totals.games\<close> is
  not 1.
\<close>

theorem match_end_not_counted:
  "fst (roblox_events quiet_events empty_store example_match_end) = Inr ok
   \<and> count_key ''eventId'' (JStr ''e1'')
        (Events (snd (roblox_events quiet_events empty_store example_match_end))) = 1
   \<and> Players (snd (roblox_events quiet_events empty_store example_match_end)) = []"
  by (simp add: roblox_events_def events_missing_def
      example_match_end_def js_or_def event_document_def Number_def toInt_def
      get_default_def insertOne_def empty_store_def quiet_events_def
      bump_player_def updateOne_def count_key_def player_update_def inc_of_def
      update_paths_def op_fields_def)

end
